theory Spec2Isabelle
  imports Complex_Main
begin

section \<open>Graph engine (class KnowledgeGraph): data model\<close>

text \<open>
  A snapshot is what the \<open>graph()\<close> endpoint serves:
  \<open>{nodes: [{id, label, theme, novelty_score, color}], edges: [{source, target, display, type}],
  orphans: [id]}\<close>. Node ids are JavaScript strings; a string is the list of its code
  units, and the strings of the examples are ASCII. Numbers are modelled in exact arithmetic
  (\<open>real\<close>); none of the properties below depends on rounding.
\<close>

record gnode =
  n_id :: string
  n_label :: string
  n_theme :: string
  n_novelty_score :: "real option"
  n_color :: "string option"

record edge =
  e_source :: string
  e_target :: string
  e_display :: string
  e_type :: string

record snapshot =
  g_nodes :: "gnode list"
  g_edges :: "edge list"
  g_orphans :: "string list"

text \<open>
  The working node of the engine is the spread copy \<open>{ ...d }\<close> of a snapshot node, to which
  \<open>render\<close> adds \<open>connections\<close> and the force simulation adds the position \<open>x\<close>, \<open>y\<close>.
  \<open>connections\<close> is a count, except on a node whose id is \<open>__proto__\<close>, where \<open>render\<close> stores
  the object \<open>Object.prototype\<close> (see \<open>connectionCount\<close> below).
\<close>

datatype conn = Count nat | Object_prototype

text \<open>The exceptions that occur.\<close>

datatype js_error = TypeError | Error string | SyntaxError

text \<open>A JavaScript number that may be \<open>NaN\<close>.\<close>

datatype jsnum = Num real | NaN

definition js_plus :: "jsnum \<Rightarrow> real \<Rightarrow> jsnum" where
  "js_plus v k = (case v of Num r \<Rightarrow> Num (r + k) | NaN \<Rightarrow> NaN)"

record node = gnode +
  connections :: conn
  pos_x :: real
  pos_y :: real

text \<open>
  A link endpoint is the id string copied from the snapshot until the link force replaces it
  by the node object it names. Only immutable fields (id, theme) are read through the object.
\<close>

datatype endpoint = Ref string | Obj node

record link =
  source :: endpoint
  target :: endpoint
  l_display :: string
  l_type :: string

text \<open>The attributes of one \<open>circle.node-circle\<close> element, with the datum bound to it.\<close>

record circle =
  c_datum :: node
  c_r :: jsnum
  c_fill :: string
  c_stroke :: string
  c_stroke_width :: real
  c_stroke_dasharray :: string
  c_opacity :: real
  c_filter :: "string option"

text \<open>A \<open>g.node\<close> group: its id attribute, bound datum, \<open>dimmed\<close> class and child circles.\<close>

record node_element =
  ne_id :: string
  ne_datum :: node
  ne_dimmed :: bool
  ne_circles :: "circle list"

record label_element =
  lb_datum :: node
  lb_dimmed :: bool
  lb_text :: string

record link_element =
  le_datum :: link
  le_dimmed :: bool

text \<open>
  The force simulation as far as the engine drives it: the centre of the centering force,
  the energy \<open>alpha\<close>, and how often \<open>restart()\<close> has been called on it.
\<close>

record simulation =
  sim_center :: "real \<times> real"
  sim_alpha :: real
  sim_restarts :: nat

record graph_state =
  width :: int
  height :: int
  svg_attr_size :: "(int \<times> int) option"
  simulation :: "simulation option"
  nodes :: "node list"
  links :: "link list"
  graph :: "snapshot option"
  currentTheme :: "string option"
  linkElements :: "link_element list option"
  nodeElements :: "node_element list option"
  labelElements :: "label_element list option"

text \<open>The constructor: nothing rendered yet, the element selections still undefined.\<close>

definition constructor :: "int \<Rightarrow> int \<Rightarrow> graph_state" where
  "constructor clientWidth clientHeight =
     \<lparr>width = clientWidth, height = clientHeight, svg_attr_size = None, simulation = None,
      nodes = [], links = [], graph = None, currentTheme = None,
      linkElements = None, nodeElements = None, labelElements = None\<rparr>"

section \<open>Radius encoding\<close>

text \<open>
  \<open>getNodeRadius\<close> of the current engine. \<open>node.connections || 0\<close> is the connection count
  when \<open>connections\<close> is a number; on \<open>Object.prototype\<close>, which is truthy, it is that object,
  \<open>Math.min\<close> of it is \<open>NaN\<close> and so is the radius.
\<close>

definition baseRadius :: real where "baseRadius = 6"
definition maxRadius :: real where "maxRadius = 25"

definition getNodeRadius :: "node \<Rightarrow> jsnum" where
  "getNodeRadius nd =
     (case connections nd of
        Count conns \<Rightarrow> Num (baseRadius + real (min conns 15) * (maxRadius - baseRadius) / 15)
      | Object_prototype \<Rightarrow> NaN)"

text \<open>
  The legacy engine's \<open>getNodeRadius\<close>, keyed on the novelty score:
  \<open>Math.max(0.5, Math.min(1.0, node.novelty_score || 0.5))\<close>, then \<open>5 + (score - 0.5) * 20\<close>.
  A missing score and the score 0 are both falsy.
\<close>

definition or_half :: "real option \<Rightarrow> real" where
  "or_half v = (case v of None \<Rightarrow> 0.5 | Some s \<Rightarrow> if s = 0 then 0.5 else s)"

definition getNodeRadius_legacy :: "gnode \<Rightarrow> real" where
  "getNodeRadius_legacy nd =
     (let score = max 0.5 (min 1.0 (or_half (n_novelty_score nd)))
      in 5 + (score - 0.5) * 20)"

section \<open>Ingest: \<open>render\<close>\<close>

subsection \<open>Connection counts\<close>

text \<open>
  \<open>connectionCount\<close> is a plain object \<open>{}\<close> used as a dictionary; the map holds its own
  properties that are numbers. A key that was never initialised reads \<open>undefined\<close> (or a
  function inherited from \<open>Object.prototype\<close>), and \<open>++\<close> on it stores \<open>NaN\<close>, which stays \<open>NaN\<close>
  under further increments and is falsy like \<open>undefined\<close>: both are the absent key here.

  The key \<open>__proto__\<close> is the accessor inherited from \<open>Object.prototype\<close>: it reads as that
  object, and its setter ignores the numbers \<open>0\<close> and \<open>NaN\<close> assigned to it. So neither the
  initialisation nor an increment changes the dictionary at that key, and
  \<open>connectionCount[node.id] || 0\<close> is \<open>Object.prototype\<close> for a node of that id.
\<close>

type_synonym counts = "string \<rightharpoonup> nat"

fun init_counts :: "counts \<Rightarrow> gnode list \<Rightarrow> counts" where
  "init_counts m [] = m"
| "init_counts m (d # ds) =
     init_counts (if n_id d = ''__proto__'' then m else m(n_id d \<mapsto> 0)) ds"

definition increment :: "counts \<Rightarrow> string \<Rightarrow> counts" where
  "increment m k =
     (if k = ''__proto__'' then m
      else case m k of None \<Rightarrow> m | Some c \<Rightarrow> m(k \<mapsto> Suc c))"

fun count_links :: "counts \<Rightarrow> edge list \<Rightarrow> counts" where
  "count_links m [] = m"
| "count_links m (e # es) = count_links (increment (increment m (e_source e)) (e_target e)) es"

definition connectionCount :: "snapshot \<Rightarrow> counts" where
  "connectionCount g = count_links (init_counts Map.empty (g_nodes g)) (g_edges g)"

text \<open>\<open>connectionCount[node.id] || 0\<close>.\<close>

definition lookup_or_zero :: "counts \<Rightarrow> string \<Rightarrow> conn" where
  "lookup_or_zero m k =
     (if k = ''__proto__'' then Object_prototype
      else case m k of None \<Rightarrow> Count 0 | Some c \<Rightarrow> Count c)"

subsection \<open>Working nodes and links\<close>

text \<open>
  The snapshot nodes carry no position, so every copy reaches \<open>d3.forceSimulation\<close>
  unpositioned and is placed by its index. The placement is the library's; it is the
  parameter \<open>place\<close>. \<open>phyllotaxis\<close> is the arrangement d3-force documents: radius
  \<open>10 * sqrt(0.5 + i)\<close> at angle \<open>i * pi * (3 - sqrt 5)\<close>.
\<close>

definition phyllotaxis :: "nat \<Rightarrow> real \<times> real" where
  "phyllotaxis i =
     (let radius = 10 * sqrt (0.5 + real i); angle = real i * (pi * (3 - sqrt 5))
      in (radius * cos angle, radius * sin angle))"

definition working_node :: "counts \<Rightarrow> (nat \<Rightarrow> real \<times> real) \<Rightarrow> nat \<Rightarrow> gnode \<Rightarrow> node" where
  "working_node cc place i d =
     gnode.extend d
       \<lparr>connections = lookup_or_zero cc (n_id d), pos_x = fst (place i),
        pos_y = snd (place i)\<rparr>"

definition working_nodes :: "(nat \<Rightarrow> real \<times> real) \<Rightarrow> snapshot \<Rightarrow> node list" where
  "working_nodes place g =
     map (\<lambda>(i, d). working_node (connectionCount g) place i d)
         (zip [0 ..< length (g_nodes g)] (g_nodes g))"

definition copy_edge :: "edge \<Rightarrow> link" where
  "copy_edge e =
     \<lparr>source = Ref (e_source e), target = Ref (e_target e),
      l_display = e_display e, l_type = e_type e\<rparr>"

text \<open>
  The link force resolves the endpoints in order, through a map from id to node in which
  the last node of an id wins, and throws \<open>node not found\<close> at the first id it cannot find.
  The links resolved before the throw stay resolved.
\<close>

datatype render_error = NodeNotFound string

definition nodeById :: "node list \<Rightarrow> string \<Rightarrow> node option" where
  "nodeById ns k = find (\<lambda>nd. n_id nd = k) (rev ns)"

definition find_endpoint :: "node list \<Rightarrow> endpoint \<Rightarrow> render_error + endpoint" where
  "find_endpoint ns ep =
     (case ep of
        Obj nd \<Rightarrow> Inr (Obj nd)
      | Ref k \<Rightarrow> (case nodeById ns k of None \<Rightarrow> Inl (NodeNotFound k) | Some nd \<Rightarrow> Inr (Obj nd)))"

fun initialize_links :: "node list \<Rightarrow> link list \<Rightarrow> link list \<times> render_error option" where
  "initialize_links ns [] = ([], None)"
| "initialize_links ns (l # ls) =
     (case find_endpoint ns (source l) of
        Inl err \<Rightarrow> (l # ls, Some err)
      | Inr s \<Rightarrow>
          (case find_endpoint ns (target l) of
             Inl err \<Rightarrow> (l\<lparr>source := s\<rparr> # ls, Some err)
           | Inr t \<Rightarrow>
               (case initialize_links ns ls of
                  (ls', err) \<Rightarrow> (l\<lparr>source := s, target := t\<rparr> # ls', err))))"

subsection \<open>Rendering the elements\<close>

text \<open>
  The keyed data join of d3-selection: among the existing elements the first one of a key
  is the candidate of that key; a datum takes the candidate of its key (update) and removes
  it from the pool, or enters a new element; what is left in the pool exits. The joined
  selection is in data order.
\<close>

fun d3_join ::
  "('e \<Rightarrow> string) \<Rightarrow> (node \<Rightarrow> 'e \<Rightarrow> 'e) \<Rightarrow> (node \<Rightarrow> 'e) \<Rightarrow> 'e list \<Rightarrow> node list \<Rightarrow> 'e list" where
  "d3_join key upd enter pool [] = []"
| "d3_join key upd enter pool (d # ds) =
     (case find (\<lambda>e. key e = n_id d) pool of
        Some e \<Rightarrow> upd d e # d3_join key upd enter (filter (\<lambda>e'. key e' \<noteq> n_id d) pool) ds
      | None \<Rightarrow> enter d # d3_join key upd enter pool ds)"

definition or_default :: "string option \<Rightarrow> string \<Rightarrow> string" where
  "or_default v dflt = (case v of None \<Rightarrow> dflt | Some s \<Rightarrow> if s = [] then dflt else s)"

text \<open>The circle \<open>renderNodes\<close> appends: the unhighlighted baseline of a node.\<close>

definition baseline_circle :: "node \<Rightarrow> circle" where
  "baseline_circle d =
     \<lparr>c_datum = d,
      c_r = getNodeRadius d,
      c_fill = or_default (n_color d) ''#3b82f6'',
      c_stroke = (if connections d = Count 0 then ''#cbd5e1'' else ''#ffffff''),
      c_stroke_width = 2,
      c_stroke_dasharray = (if connections d = Count 0 then ''4,4'' else ''0''),
      c_opacity = (if connections d = Count 0 then 0.6 else 1),
      c_filter = None\<rparr>"

definition existing :: "'e list option \<Rightarrow> 'e list" where
  "existing sel = (case sel of None \<Rightarrow> [] | Some es \<Rightarrow> es)"

definition renderLinks :: "graph_state \<Rightarrow> graph_state" where
  "renderLinks s =
     s\<lparr>linkElements := Some (map (\<lambda>l. \<lparr>le_datum = l, le_dimmed = False\<rparr>) (links s))\<rparr>"

definition renderNodes :: "graph_state \<Rightarrow> graph_state" where
  "renderNodes s =
     (let joined =
            d3_join (\<lambda>e. n_id (ne_datum e)) (\<lambda>d e. e\<lparr>ne_datum := d\<rparr>)
              (\<lambda>d. \<lparr>ne_id = ''node-'' @ n_id d, ne_datum = d, ne_dimmed = False, ne_circles = []\<rparr>)
              (existing (nodeElements s)) (nodes s)
      in s\<lparr>nodeElements :=
             Some (map (\<lambda>e. e\<lparr>ne_circles := ne_circles e @ [baseline_circle (ne_datum e)]\<rparr>)
                       joined)\<rparr>)"

definition truncateLabel :: "string \<Rightarrow> nat \<Rightarrow> string" where
  "truncateLabel txt len = (if length txt \<le> len then txt else take len txt @ ''...'')"

definition renderLabels :: "graph_state \<Rightarrow> graph_state" where
  "renderLabels s =
     (let joined =
            d3_join (\<lambda>e. n_id (lb_datum e)) (\<lambda>d e. e\<lparr>lb_datum := d\<rparr>)
              (\<lambda>d. \<lparr>lb_datum = d, lb_dimmed = False, lb_text = []\<rparr>)
              (existing (labelElements s)) (nodes s)
      in s\<lparr>labelElements :=
             Some (map (\<lambda>e. e\<lparr>lb_text := truncateLabel (n_label (lb_datum e)) 15\<rparr>) joined)\<rparr>)"

subsection \<open>\<open>render\<close>\<close>

record render_stats =
  nodeCount :: nat
  linkCount :: nat
  orphanCount :: nat

text \<open>
  \<open>render\<close> stores the working set first, then builds the simulation. When the link force
  throws, the exception leaves \<open>render\<close>: the new working set is already stored, the old
  simulation and the old elements stay. Otherwise the elements are rendered and the
  statistics handed to \<open>options.onRender\<close> are returned.
\<close>

definition render ::
  "(nat \<Rightarrow> real \<times> real) \<Rightarrow> snapshot \<Rightarrow> graph_state \<Rightarrow> graph_state \<times> (render_error + render_stats)" where
  "render place g s =
     (let ns = working_nodes place g;
          (ls, err) = initialize_links ns (map copy_edge (g_edges g))
      in case err of
           Some e \<Rightarrow> (s\<lparr>graph := Some g, nodes := ns, links := ls\<rparr>, Inl e)
         | None \<Rightarrow>
             (renderLabels (renderNodes (renderLinks
                (s\<lparr>graph := Some g, nodes := ns, links := ls,
                   simulation :=
                     Some \<lparr>sim_center = (real_of_int (width s) / 2, real_of_int (height s) / 2),
                           sim_alpha = 1, sim_restarts = 0\<rparr>\<rparr>))),
              Inr \<lparr>nodeCount = length ns, linkCount = length ls,
                   orphanCount = length (g_orphans g)\<rparr>))"

section \<open>Theme filter\<close>

text \<open>
  \<open>this.currentTheme && ...\<close>: the filter is active when \<open>currentTheme\<close> is truthy, that is
  neither \<open>null\<close> nor the empty string.
\<close>

definition truthy :: "string option \<Rightarrow> bool" where
  "truthy t = (case t of None \<Rightarrow> False | Some v \<Rightarrow> v \<noteq> [])"

text \<open>\<open>d.source.theme\<close>: the theme of a resolved endpoint, \<open>undefined\<close> on an id string.\<close>

definition endpoint_theme :: "endpoint \<Rightarrow> string option" where
  "endpoint_theme ep = (case ep of Ref k \<Rightarrow> None | Obj nd \<Rightarrow> Some (n_theme nd))"

definition node_dimmed :: "string option \<Rightarrow> node \<Rightarrow> bool" where
  "node_dimmed t d = (truthy t \<and> Some (n_theme d) \<noteq> t)"

definition link_dimmed :: "string option \<Rightarrow> link \<Rightarrow> bool" where
  "link_dimmed t d =
     (if truthy t then endpoint_theme (source d) \<noteq> t \<and> endpoint_theme (target d) \<noteq> t
      else False)"

definition updateHighlight :: "graph_state \<Rightarrow> graph_state" where
  "updateHighlight s =
     s\<lparr>nodeElements :=
         map_option (map (\<lambda>e. e\<lparr>ne_dimmed := node_dimmed (currentTheme s) (ne_datum e)\<rparr>))
           (nodeElements s),
       labelElements :=
         map_option (map (\<lambda>e. e\<lparr>lb_dimmed := node_dimmed (currentTheme s) (lb_datum e)\<rparr>))
           (labelElements s),
       linkElements :=
         map_option (map (\<lambda>e. e\<lparr>le_dimmed := link_dimmed (currentTheme s) (le_datum e)\<rparr>))
           (linkElements s)\<rparr>"

definition filterByTheme :: "string option \<Rightarrow> graph_state \<Rightarrow> graph_state" where
  "filterByTheme t s = updateHighlight (s\<lparr>currentTheme := t\<rparr>)"

definition clearFilter :: "graph_state \<Rightarrow> graph_state" where
  "clearFilter s = updateHighlight (s\<lparr>currentTheme := None\<rparr>)"

text \<open>The dim-state of the view: the \<open>dimmed\<close> flag of every node, label and edge element.\<close>

definition dim_state :: "graph_state \<Rightarrow> bool list \<times> bool list \<times> bool list" where
  "dim_state s =
     (map ne_dimmed (existing (nodeElements s)),
      map lb_dimmed (existing (labelElements s)),
      map le_dimmed (existing (linkElements s)))"

definition undimmed :: "graph_state \<Rightarrow> bool" where
  "undimmed s =
     (dim_state s =
        (replicate (length (existing (nodeElements s))) False,
         replicate (length (existing (labelElements s))) False,
         replicate (length (existing (linkElements s))) False))"

section \<open>Search highlight\<close>

text \<open>
  The reset step runs over every circle below the nodes group and recomputes the radius from
  the circle's own datum.
\<close>

definition reset_circle :: "circle \<Rightarrow> circle" where
  "reset_circle c =
     c\<lparr>c_stroke_width := 2, c_stroke := ''#ffffff'', c_r := getNodeRadius (c_datum c),
       c_opacity := 0.7\<rparr>"

text \<open>
  The highlight step looks each id up with \<open>this.svg.select('#node-' + nodeId)\<close>, which hands
  the string to \<open>querySelector\<close> as a CSS selector. When the id consists of name characters
  only (letters, digits, \<open>-\<close>, \<open>_\<close>, non-ASCII), the string is an id selector and finds the first
  group whose id attribute is \<open>node-<nodeId>\<close> (the node groups are the only elements with an
  id; ids are compared exactly, as in a document that is not in quirks mode).

  With any other id the string is some other selector or none. What \<open>querySelector\<close> makes of
  it is the browser's and is the parameter \<open>css\<close>: it throws a syntax error, or its first
  match is an element with no circle below it (or there is no match), or the \<open>i\<close>-th node
  group, or one of the two groups that contain all node groups.
\<close>

definition css_name_char :: "char \<Rightarrow> bool" where
  "css_name_char c =
     (digit7 c \<or> c \<in> set ''abcdefghijklmnopqrstuvwxyzABCDEFGHIJKLMNOPQRSTUVWXYZ0123456789-_'')"

definition css_name :: "string \<Rightarrow> bool" where
  "css_name txt = list_all css_name_char txt"

datatype hit = Syntax_error | Hit_nothing | Hit_group nat | Hit_container

type_synonym selector_engine = "string \<Rightarrow> node_element list \<Rightarrow> hit"

text \<open>The attributes of a highlighted circle; \<open>d\<close> is the datum the circle then carries.\<close>

definition highlight_attrs :: "node \<Rightarrow> circle \<Rightarrow> circle" where
  "highlight_attrs d c =
     c\<lparr>c_datum := d, c_stroke_width := 20, c_stroke := ''#ffd700'',
       c_r := js_plus (getNodeRadius d) 6, c_opacity := 1,
       c_filter := Some ''brightness(1.2)''\<rparr>"

text \<open>
  \<open>nodeElement.select('circle.node-circle')\<close> on a node group: its first circle, which
  receives the group's datum.
\<close>

definition highlight_circle :: "node_element \<Rightarrow> node_element" where
  "highlight_circle e =
     (case ne_circles e of
        [] \<Rightarrow> e
      | c # cs \<Rightarrow> e\<lparr>ne_circles := highlight_attrs (ne_datum e) c # cs\<rparr>)"

fun highlight_first :: "string \<Rightarrow> node_element list \<Rightarrow> node_element list" where
  "highlight_first nodeId [] = []"
| "highlight_first nodeId (e # es) =
     (if ne_id e = ''node-'' @ nodeId then highlight_circle e # es
      else e # highlight_first nodeId es)"

text \<open>
  The same on a group that contains all node groups: the first circle below it, which
  keeps its own datum, since the containing group has none.
\<close>

fun highlight_first_circle :: "node_element list \<Rightarrow> node_element list" where
  "highlight_first_circle [] = []"
| "highlight_first_circle (e # es) =
     (case ne_circles e of
        [] \<Rightarrow> e # highlight_first_circle es
      | c # cs \<Rightarrow> e\<lparr>ne_circles := highlight_attrs (c_datum c) c # cs\<rparr> # es)"

definition highlight_one ::
  "selector_engine \<Rightarrow> string \<Rightarrow> node_element list \<Rightarrow> js_error + node_element list" where
  "highlight_one css nodeId es =
     (if css_name nodeId then Inr (highlight_first nodeId es)
      else case css nodeId es of
             Syntax_error \<Rightarrow> Inl SyntaxError
           | Hit_nothing \<Rightarrow> Inr es
           | Hit_group i \<Rightarrow> Inr (if i < length es then es[i := highlight_circle (es ! i)] else es)
           | Hit_container \<Rightarrow> Inr (highlight_first_circle es))"

text \<open>\<open>nodeIds.forEach\<close>: an exception ends the loop and leaves what was done before it.\<close>

fun highlight_each ::
  "selector_engine \<Rightarrow> string list \<Rightarrow> node_element list
   \<Rightarrow> node_element list \<times> js_error option" where
  "highlight_each css [] es = (es, None)"
| "highlight_each css (nodeId # nodeIds) es =
     (case highlight_one css nodeId es of
        Inl err \<Rightarrow> (es, Some err)
      | Inr es' \<Rightarrow> highlight_each css nodeIds es')"

text \<open>
  \<open>highlightSearchResults\<close>: the state it leaves and the exception that leaves it, if any.
\<close>

definition highlightSearchResults ::
  "selector_engine \<Rightarrow> string list \<Rightarrow> graph_state \<Rightarrow> graph_state \<times> js_error option" where
  "highlightSearchResults css nodeIds s =
     (case highlight_each css nodeIds
             (map (\<lambda>e. e\<lparr>ne_circles := map reset_circle (ne_circles e)\<rparr>)
                  (existing (nodeElements s))) of
        (es, err) \<Rightarrow> (s\<lparr>nodeElements := map_option (\<lambda>_. es) (nodeElements s)\<rparr>, err))"

section \<open>Resize\<close>

text \<open>
  \<open>onWindowResize\<close> reads the viewport's \<open>clientWidth\<close> and \<open>clientHeight\<close>, here its
  arguments.
\<close>

definition onWindowResize :: "int \<Rightarrow> int \<Rightarrow> graph_state \<Rightarrow> graph_state" where
  "onWindowResize newWidth newHeight s =
     (if newWidth \<noteq> width s \<or> newHeight \<noteq> height s then
        s\<lparr>width := newWidth, height := newHeight,
          svg_attr_size := Some (newWidth, newHeight),
          simulation :=
            map_option
              (\<lambda>sim. sim\<lparr>sim_center := (real_of_int newWidth / 2, real_of_int newHeight / 2),
                         sim_alpha := 0.3, sim_restarts := Suc (sim_restarts sim)\<rparr>)
              (simulation s)\<rparr>
      else s)"

section \<open>Navigation panel (class Sidebar)\<close>

record search_result =
  r_id :: string
  r_label :: string
  r_theme :: string
  r_score :: "real option"
  r_snippet :: "string option"

record search_data =
  d_count :: int
  d_semantic :: bool
  d_results :: "search_result list"

record theme_data =
  t_color :: string
  t_count :: int

text \<open>
  The parameters of one search request, as \<open>performSearch\<close> writes them into the URL
  \<open>/api/vault/search?q=...&theme=...&semantic=...&limit=25\<close>. There is nothing else in it.
\<close>

record search_request =
  rq_q :: string
  rq_theme :: "string option"
  rq_semantic :: bool
  rq_limit :: nat

record result_card =
  card_target :: string
  card_title :: string
  card_score :: "real option"
  card_theme :: string
  card_color :: string
  card_snippet :: "string option"

record theme_item =
  ti_text :: string
  ti_active :: bool

text \<open>
  What leaves the panel: a network search, or a call of one of the callbacks the coordinator
  registered. Each is logged together with the search query and the display value of the
  results panel at the moment of the call.

  The search callback is kept as far as the panel can see it: for an argument, the exception
  it throws, if any (the coordinator's callback calls \<open>highlightSearchResults\<close>, which can
  throw). \<open>None\<close> is the \<open>null\<close> of a panel on which no callback is registered.
\<close>

datatype call = Fetch search_request | OnSearch "string list option" | OnThemeClick "string option"

record sidebar =
  themes :: "(string \<times> theme_data) list"
  selectedTheme :: "string option"
  searchQuery :: string
  searchResults :: "search_result list"
  searchTimeout :: "nat option"
  has_onThemeClick :: bool
  onSearch :: "(string list option \<Rightarrow> js_error option) option"
  input_value :: string
  clear_active :: bool
  semantic_checked :: bool
  results_display :: string
  results_list :: "result_card list"
  results_count_text :: "(int \<times> string) option"
  results_mode_text :: string
  theme_items :: "theme_item list"
  calls :: "(call \<times> string \<times> string) list"

definition log_call :: "call \<Rightarrow> sidebar \<Rightarrow> sidebar" where
  "log_call c s = s\<lparr>calls := calls s @ [(c, searchQuery s, results_display s)]\<rparr>"

text \<open>\<open>if (this.onSearch) this.onSearch(ids)\<close>: the state and the exception thrown, if any.\<close>

definition call_onSearch :: "string list option \<Rightarrow> sidebar \<Rightarrow> sidebar \<times> js_error option" where
  "call_onSearch ids s =
     (case onSearch s of
        None \<Rightarrow> (s, None)
      | Some callback \<Rightarrow> (log_call (OnSearch ids) s, callback ids))"

definition call_onThemeClick :: "string option \<Rightarrow> sidebar \<Rightarrow> sidebar" where
  "call_onThemeClick themeName s = (if has_onThemeClick s then log_call (OnThemeClick themeName) s else s)"

definition hideSearchResults :: "sidebar \<Rightarrow> sidebar" where
  "hideSearchResults s = s\<lparr>results_display := ''none'', results_list := []\<rparr>"

text \<open>
  A result card. The card shows the score as a percentage, \<open>Math.round(result.score * 100)\<close>
  in double arithmetic; the model keeps the score itself.
\<close>

definition result_to_card :: "(string \<times> theme_data) list \<Rightarrow> search_result \<Rightarrow> result_card" where
  "result_to_card ths r =
     \<lparr>card_target = r_id r,
      card_title = r_label r,
      card_score = r_score r,
      card_theme = r_theme r,
      card_color = or_default (map_option t_color (map_of ths (r_theme r))) ''#64748b'',
      card_snippet = (if truthy (r_snippet r) then r_snippet r else None)\<rparr>"

definition renderSearchResults :: "search_data \<Rightarrow> sidebar \<Rightarrow> sidebar" where
  "renderSearchResults dat s =
     s\<lparr>results_count_text := Some (d_count dat, if d_count dat \<noteq> 1 then ''results'' else ''result''),
       results_mode_text := (if d_semantic dat then ''semantic'' else ''keyword''),
       results_list := map (result_to_card (themes s)) (d_results dat),
       results_display := ''block''\<rparr>"

subsection \<open>Selecting a theme\<close>

fun is_prefix :: "string \<Rightarrow> string \<Rightarrow> bool" where
  "is_prefix [] txt = True"
| "is_prefix (c # cs) [] = False"
| "is_prefix (c # cs) (d # ds) = (c = d \<and> is_prefix cs ds)"

fun text_includes :: "string \<Rightarrow> string \<Rightarrow> bool" where
  "text_includes [] sub = (sub = [])"
| "text_includes (c # cs) sub = (is_prefix sub (c # cs) \<or> text_includes cs sub)"

text \<open>
  \<open>selectTheme\<close> resets the search first, then moves the \<open>active\<close> class, then calls the
  theme callback. \<open>document.querySelectorAll('.theme-item')[0]\<close> is \<open>undefined\<close> when no
  theme item was rendered, and \<open>.classList\<close> on it throws a TypeError: the callback is
  then not reached.
\<close>

definition selectTheme :: "string option \<Rightarrow> sidebar \<Rightarrow> sidebar \<times> js_error option" where
  "selectTheme themeName s =
     (let s1 = hideSearchResults
                 (s\<lparr>selectedTheme := themeName, input_value := [], searchQuery := [],
                    clear_active := False\<rparr>);
          items = map (\<lambda>el. el\<lparr>ti_active := False\<rparr>) (theme_items s1)
      in case themeName of
           None \<Rightarrow>
             (case items of
                [] \<Rightarrow> (s1\<lparr>theme_items := items\<rparr>, Some TypeError)
              | el # els \<Rightarrow>
                  (call_onThemeClick themeName (s1\<lparr>theme_items := el\<lparr>ti_active := True\<rparr> # els\<rparr>),
                   None))
         | Some name \<Rightarrow>
             (call_onThemeClick themeName
                (s1\<lparr>theme_items :=
                      map (\<lambda>el. if text_includes (ti_text el) name then el\<lparr>ti_active := True\<rparr> else el)
                          items\<rparr>),
              None))"

subsection \<open>Searching: timers, requests and responses\<close>

text \<open>
  The panel runs on the browser's event loop. The world around it holds the clock (in
  milliseconds), the pending timers (identifier and due time; every timer of the panel's
  search input calls \<open>performSearch\<close>) and the search requests whose response has not arrived.
\<close>

record world =
  sb :: sidebar
  now :: nat
  timers :: "(nat \<times> nat) list"
  next_timer :: nat
  in_flight :: "search_request list"

definition clearTimeout :: "nat option \<Rightarrow> (nat \<times> nat) list \<Rightarrow> (nat \<times> nat) list" where
  "clearTimeout tid ts = (case tid of None \<Rightarrow> ts | Some i \<Rightarrow> filter (\<lambda>t. fst t \<noteq> i) ts)"

text \<open>
  The listener of the search input's \<open>input\<close> event; \<open>v\<close> is \<open>e.target.value\<close>. The call of the
  search callback is its last statement: an exception of the callback leaves the listener
  and changes nothing more.
\<close>

definition on_input :: "string \<Rightarrow> world \<Rightarrow> world" where
  "on_input v w =
     (let s1 = (sb w)\<lparr>searchQuery := v, input_value := v\<rparr>;
          s2 = (if v \<noteq> [] then s1\<lparr>clear_active := True\<rparr>
                else hideSearchResults (s1\<lparr>clear_active := False\<rparr>));
          ts = clearTimeout (searchTimeout s2) (timers w)
      in if v \<noteq> [] then
           w\<lparr>sb := s2\<lparr>searchTimeout := Some (next_timer w)\<rparr>,
             timers := ts @ [(next_timer w, now w + 300)],
             next_timer := Suc (next_timer w)\<rparr>
         else w\<lparr>sb := fst (call_onSearch None s2), timers := ts\<rparr>)"

text \<open>
  \<open>performSearch\<close> up to its first \<open>await\<close>: with an empty query it reports no search, hides
  the results and returns (an exception of the callback, thrown before the \<open>try\<close> block,
  leaves \<open>performSearch\<close> before the results are hidden); otherwise it sends the request built
  from the current query, theme and mode.
\<close>

definition build_request :: "sidebar \<Rightarrow> search_request" where
  "build_request s =
     \<lparr>rq_q = searchQuery s,
      rq_theme = (if truthy (selectedTheme s) then selectedTheme s else None),
      rq_semantic = semantic_checked s,
      rq_limit = 25\<rparr>"

definition performSearch :: "world \<Rightarrow> world" where
  "performSearch w =
     (if searchQuery (sb w) = [] then
        (case call_onSearch None (sb w) of
           (s', None) \<Rightarrow> w\<lparr>sb := hideSearchResults s'\<rparr>
         | (s', Some err) \<Rightarrow> w\<lparr>sb := s'\<rparr>)
      else w\<lparr>sb := log_call (Fetch (build_request (sb w))) (sb w),
             in_flight := in_flight w @ [build_request (sb w)]\<rparr>)"

text \<open>
  \<open>performSearch\<close> after the \<open>await\<close>, inside the \<open>try\<close> block: a failed fetch is logged to the
  console only; a response is stored, reported to the search callback and rendered. When
  the callback throws, the \<open>catch\<close> block logs the error and the results are not rendered.
\<close>

datatype search_response = Search_failed | Search_data search_data

definition performSearch_resume :: "search_response \<Rightarrow> sidebar \<Rightarrow> sidebar" where
  "performSearch_resume resp s =
     (case resp of
        Search_failed \<Rightarrow> s
      | Search_data dat \<Rightarrow>
          (case call_onSearch (Some (map r_id (d_results dat)))
                  (s\<lparr>searchResults := d_results dat\<rparr>) of
             (s', None) \<Rightarrow> renderSearchResults dat s'
           | (s', Some err) \<Rightarrow> s'))"

text \<open>
  The events of the loop: time passes (the timers that fall due fire, earliest first), the
  user changes the search input, or the response to the \<open>i\<close>-th request in flight arrives.
\<close>

datatype event = Elapse nat | Input string | Response nat search_response

definition elapse :: "nat \<Rightarrow> world \<Rightarrow> world" where
  "elapse dt w =
     (let t = now w + dt;
          due = filter (\<lambda>tm. snd tm \<le> t) (timers w);
          rest = filter (\<lambda>tm. t < snd tm) (timers w)
      in foldl (\<lambda>w' tm. performSearch w') (w\<lparr>now := t, timers := rest\<rparr>) (sort_key snd due))"

definition respond :: "nat \<Rightarrow> search_response \<Rightarrow> world \<Rightarrow> world" where
  "respond i resp w =
     (if i < length (in_flight w) then
        w\<lparr>sb := performSearch_resume resp (sb w),
          in_flight := take i (in_flight w) @ drop (Suc i) (in_flight w)\<rparr>
      else w)"

fun step :: "event \<Rightarrow> world \<Rightarrow> world" where
  "step (Elapse dt) w = elapse dt w"
| "step (Input v) w = on_input v w"
| "step (Response i resp) w = respond i resp w"

definition run :: "event list \<Rightarrow> world \<Rightarrow> world" where
  "run evs w = foldl (\<lambda>w' ev. step ev w') w evs"

text \<open>The network searches fired so far, in order.\<close>

definition fetches :: "sidebar \<Rightarrow> search_request list" where
  "fetches s = concat (map (\<lambda>c. case fst c of Fetch rq \<Rightarrow> [rq] | _ \<Rightarrow> []) (calls s))"

definition onSearch_calls :: "sidebar \<Rightarrow> string list option list" where
  "onSearch_calls s = concat (map (\<lambda>c. case fst c of OnSearch ids \<Rightarrow> [ids] | _ \<Rightarrow> []) (calls s))"

text \<open>
  Typing: a first keystroke, then further keystrokes, each after a gap in milliseconds.
\<close>

definition typing :: "string \<Rightarrow> (nat \<times> string) list \<Rightarrow> event list" where
  "typing v0 ks = Input v0 # concat (map (\<lambda>k. [Elapse (fst k), Input (snd k)]) ks)"

text \<open>The panel as constructed, with callbacks registered that return normally.\<close>

definition new_sidebar :: sidebar where
  "new_sidebar =
     \<lparr>themes = [], selectedTheme = None, searchQuery = [], searchResults = [],
      searchTimeout = None, has_onThemeClick = True, onSearch = Some (\<lambda>ids. None),
      input_value = [], clear_active = False, semantic_checked = False,
      results_display = ''none'', results_list = [], results_count_text = None,
      results_mode_text = [], theme_items = [], calls = []\<rparr>"

definition new_world :: world where
  "new_world = \<lparr>sb = new_sidebar, now = 0, timers = [], next_timer = 1, in_flight = []\<rparr>"

section \<open>Document viewer (class InsightViewer)\<close>

text \<open>
  The viewer's state as far as \<open>loadInsight\<close>, \<open>showError\<close> and \<open>clear\<close> write it: the current
  insight, the placeholder element (\<open>.viewer-empty\<close>: text, display) and the detail element
  (display, content). The elements the constructor looks up are taken to exist in the page.
\<close>

record 'i viewer =
  currentInsight :: "'i option"
  empty_text :: string
  empty_display :: string
  detail_display :: string
  content_html :: string

definition showError :: "string \<Rightarrow> 'i viewer \<Rightarrow> 'i viewer" where
  "showError message v = v\<lparr>empty_text := message, empty_display := ''flex'', detail_display := ''none''\<rparr>"

definition clear :: "'i viewer \<Rightarrow> 'i viewer" where
  "clear v = v\<lparr>currentInsight := None, empty_display := ''flex'', detail_display := ''none'',
              content_html := []\<rparr>"

text \<open>
  How the detail request ends: \<open>fetch\<close> rejects, the response is not \<open>ok\<close> (the code throws
  \<open>Error('Insight not found')\<close>), \<open>response.json()\<close> rejects, or an insight is delivered.
\<close>

datatype fetch_failure = Fetch_rejected | Response_not_ok | Json_rejected

datatype 'i fetch_outcome = Failure fetch_failure | Delivered 'i

definition thrown :: "fetch_failure \<Rightarrow> js_error" where
  "thrown f =
     (case f of Fetch_rejected \<Rightarrow> TypeError
              | Response_not_ok \<Rightarrow> Error ''Insight not found''
              | Json_rejected \<Rightarrow> SyntaxError)"

text \<open>
  The \<open>try\<close> block of \<open>loadInsight\<close>. Rendering the delivered insight is the viewer's
  \<open>render\<close> method, here the parameter \<open>render_insight\<close>; it returns the viewer as it
  leaves it and the exception it may throw on malformed data.
\<close>

definition loadInsight_try ::
  "('i \<Rightarrow> 'i viewer \<Rightarrow> 'i viewer \<times> js_error option) \<Rightarrow> 'i fetch_outcome \<Rightarrow> 'i viewer
   \<Rightarrow> 'i viewer \<times> js_error option" where
  "loadInsight_try render_insight outcome v =
     (case outcome of
        Failure f \<Rightarrow> (v, Some (thrown f))
      | Delivered insight \<Rightarrow> render_insight insight (v\<lparr>currentInsight := Some insight\<rparr>))"

text \<open>\<open>loadInsight\<close>: the \<open>catch\<close> block shows the error. The second component is the
  exception that leaves the method.\<close>

definition loadInsight ::
  "('i \<Rightarrow> 'i viewer \<Rightarrow> 'i viewer \<times> js_error option) \<Rightarrow> 'i fetch_outcome \<Rightarrow> 'i viewer
   \<Rightarrow> 'i viewer \<times> js_error option" where
  "loadInsight render_insight outcome v =
     (case loadInsight_try render_insight outcome v of
        (v', None) \<Rightarrow> (v', None)
      | (v', Some err) \<Rightarrow> (showError ''Failed to load insight'' v', None))"

section \<open>Coordinator (class KnowledgeEngineApp)\<close>

record 'i app =
  app_graph :: graph_state
  app_sidebar :: sidebar
  app_viewer :: "'i viewer"
  graph_container_scrollTop :: nat

text \<open>\<open>app.loadInsight\<close>: scroll the graph container to the top, then load into the viewer.\<close>

definition app_loadInsight ::
  "('i \<Rightarrow> 'i viewer \<Rightarrow> 'i viewer \<times> js_error option) \<Rightarrow> 'i fetch_outcome \<Rightarrow> 'i app
   \<Rightarrow> 'i app \<times> js_error option" where
  "app_loadInsight render_insight outcome a =
     (case loadInsight render_insight outcome (app_viewer a) of
        (v', err) \<Rightarrow> (a\<lparr>graph_container_scrollTop := 0, app_viewer := v'\<rparr>, err))"

text \<open>
  The callbacks \<open>setupEventListeners\<close> registers on the panel. The search callback is the
  only caller of \<open>highlightSearchResults\<close>. The theme callback filters and, for a theme,
  requests the theme's snapshot (rendered when it arrives); for \<open>null\<close> it clears the filter
  and renders the full snapshot \<open>this.graphData\<close> again.
\<close>

definition searchCallback ::
  "selector_engine \<Rightarrow> string list option \<Rightarrow> graph_state \<Rightarrow> graph_state \<times> js_error option" where
  "searchCallback css resultNodeIds gs =
     (case resultNodeIds of
        Some (i # ids) \<Rightarrow> highlightSearchResults css (i # ids) gs
      | _ \<Rightarrow> highlightSearchResults css [] gs)"

definition themeClickCallback ::
  "(nat \<Rightarrow> real \<times> real) \<Rightarrow> snapshot \<Rightarrow> string option \<Rightarrow> graph_state \<Rightarrow> graph_state" where
  "themeClickCallback place graphData theme gs =
     (if truthy theme then filterByTheme theme gs
      else fst (render place graphData (clearFilter gs)))"

section \<open>Notions used in the statements and proofs\<close>

text \<open>The circles of the first group bound to node \<open>k\<close>, if the node is drawn.\<close>

definition circles_of :: "string \<Rightarrow> graph_state \<Rightarrow> circle list option" where
  "circles_of k gs =
     map_option ne_circles (find (\<lambda>e. n_id (ne_datum e) = k) (existing (nodeElements gs)))"

text \<open>Every node of \<open>s\<close> whose id is again in \<open>s'\<close> has there the position it has in \<open>s\<close>.\<close>

definition positions_preserved :: "graph_state \<Rightarrow> graph_state \<Rightarrow> bool" where
  "positions_preserved s s' =
     list_all (\<lambda>old. list_all (\<lambda>new. if n_id new = n_id old
                                        then pos_x new = pos_x old \<and> pos_y new = pos_y old
                                        else True) (nodes s')) (nodes s)"

text \<open>
  The debounce timer is armed: with a non-empty query exactly the timer stored in
  \<open>searchTimeout\<close> is pending, due a full delay from now; with an empty query none is.
  It is cancellable when clearing \<open>searchTimeout\<close> leaves no timer pending.
\<close>

definition armed :: "world \<Rightarrow> bool" where
  "armed w =
     (if searchQuery (sb w) = [] then timers w = []
      else timers w = (case searchTimeout (sb w) of None \<Rightarrow> [] | Some i \<Rightarrow> [(i, now w + 300)])
           \<and> searchTimeout (sb w) \<noteq> None)"

definition cancellable :: "world \<Rightarrow> bool" where
  "cancellable w = (clearTimeout (searchTimeout (sb w)) (timers w) = [])"

section \<open>Example inputs\<close>

definition ex_node :: "string \<Rightarrow> string \<Rightarrow> gnode" where
  "ex_node i t = \<lparr>n_id = i, n_label = i, n_theme = t, n_novelty_score = Some 0.5, n_color = None\<rparr>"

definition ex_edge :: "string \<Rightarrow> string \<Rightarrow> edge" where
  "ex_edge a b = \<lparr>e_source = a, e_target = b, e_display = b, e_type = ''wikilink''\<rparr>"

text \<open>Nodes A, B, C, D with the edges A-B and A-C; D is an orphan.\<close>

definition ex_graph :: snapshot where
  "ex_graph =
     \<lparr>g_nodes = [ex_node ''A'' ''T1'', ex_node ''B'' ''T2'', ex_node ''C'' ''T1'', ex_node ''D'' ''T2''],
      g_edges = [ex_edge ''A'' ''B'', ex_edge ''A'' ''C''],
      g_orphans = [''D'']\<rparr>"

definition ex_rendered :: graph_state where
  "ex_rendered = fst (render phyllotaxis ex_graph (constructor 800 600))"

text \<open>
  The example graph after a search that found A. The id is a plain name, so the selector
  engine is not consulted.
\<close>

definition ex_highlighted :: graph_state where
  "ex_highlighted = fst (searchCallback (\<lambda>nodeId es. Hit_nothing) (Some [''A'']) ex_rendered)"

text \<open>One node with an edge to itself.\<close>

definition ex_selfloop :: snapshot where
  "ex_selfloop = \<lparr>g_nodes = [ex_node ''A'' ''T1''], g_edges = [ex_edge ''A'' ''A''], g_orphans = []\<rparr>"

text \<open>
  A node whose id is \<open>__proto__\<close> and a node N, both of novelty score 1, with an edge
  between them.
\<close>

definition ex_proto :: snapshot where
  "ex_proto =
     \<lparr>g_nodes = [(ex_node ''__proto__'' ''T1'')\<lparr>n_novelty_score := Some 1\<rparr>,
                 (ex_node ''N'' ''T1'')\<lparr>n_novelty_score := Some 1\<rparr>],
      g_edges = [ex_edge ''__proto__'' ''N''],
      g_orphans = []\<rparr>"

text \<open>
  One node, ingested into an 800 by 600 viewport, which the simulation has since moved to
  the centre of the viewport.
\<close>

definition ex_single :: snapshot where
  "ex_single = \<lparr>g_nodes = [ex_node ''A'' ''T1''], g_edges = [], g_orphans = [''A'']\<rparr>"

definition ex_settled :: graph_state where
  "ex_settled =
     (fst (render phyllotaxis ex_single (constructor 800 600)))
       \<lparr>nodes := map (\<lambda>nd. nd\<lparr>pos_x := 400, pos_y := 300\<rparr>)
                   (nodes (fst (render phyllotaxis ex_single (constructor 800 600))))\<rparr>"

definition ex_result :: "string \<Rightarrow> search_result" where
  "ex_result i = \<lparr>r_id = i, r_label = i, r_theme = ''T1'', r_score = None, r_snippet = None\<rparr>"

definition ex_data :: "string list \<Rightarrow> search_data" where
  "ex_data ids = \<lparr>d_count = int (length ids), d_semantic = False, d_results = map ex_result ids\<rparr>"

text \<open>
  Two searches overlap: ``alp'' is sent, then ``alpha''; the response to ``alpha'' arrives
  first, the response to ``alp'' after it.
\<close>

definition ex_overlap :: "event list" where
  "ex_overlap =
     [Input ''alp'', Elapse 300, Input ''alpha'', Elapse 300,
      Response 1 (Search_data (ex_data [''alpha-centauri''])),
      Response 0 (Search_data (ex_data [''alps'', ''alpha-centauri'']))]"

text \<open>A panel showing the results of a search for ``alpha'', with three theme items.\<close>

definition ex_sidebar :: sidebar where
  "ex_sidebar =
     new_sidebar
       \<lparr>searchQuery := ''alpha'', input_value := ''alpha'', clear_active := True,
         results_display := ''block'',
         theme_items := [\<lparr>ti_text = ''All Themes 4'', ti_active = True\<rparr>,
                         \<lparr>ti_text = ''T1 2'', ti_active = False\<rparr>,
                         \<lparr>ti_text = ''T2 2'', ti_active = False\<rparr>]\<rparr>"

section \<open>Evaluation rules for the examples\<close>

lemmas ex_defs =
  ex_node_def ex_edge_def ex_graph_def ex_rendered_def ex_selfloop_def ex_single_def ex_settled_def
  ex_proto_def

lemmas render_defs =
  render_def working_nodes_def working_node_def connectionCount_def increment_def
  lookup_or_zero_def copy_edge_def find_endpoint_def nodeById_def constructor_def
  renderLabels_def renderNodes_def renderLinks_def gnode.extend_def existing_def
  baseline_circle_def truncateLabel_def

lemmas highlight_defs =
  highlightSearchResults_def searchCallback_def highlight_one_def highlight_circle_def
  highlight_attrs_def reset_circle_def css_name_def css_name_char_def ex_highlighted_def

lemmas sidebar_defs =
  new_world_def new_sidebar_def typing_def run_def on_input_def elapse_def performSearch_def
  build_request_def log_call_def call_onSearch_def hideSearchResults_def clearTimeout_def
  truthy_def fetches_def respond_def performSearch_resume_def renderSearchResults_def
  result_to_card_def onSearch_calls_def or_default_def

lemma upt4: "[0..<4] = [0, 1, 2, 3]"
  by (simp add: upt_rec)

lemma phyllotaxis_0: "phyllotaxis 0 = (10 * sqrt (1 / 2), 0)"
  by (simp add: phyllotaxis_def)

section \<open>Connection counts and orphans\<close>

lemma increment_lookup:
  "k \<noteq> ''__proto__'' \<Longrightarrow>
   increment m j k = map_option (\<lambda>c. c + (if j = k then 1 else 0)) (m k)"
  by (cases "m j"; cases "m k") (auto simp: increment_def)

lemma count_links_lookup:
  "k \<noteq> ''__proto__'' \<Longrightarrow>
   count_links m es k =
     map_option (\<lambda>c. c + count_list (map e_source es) k + count_list (map e_target es) k) (m k)"
proof (induction es arbitrary: m)
  case Nil
  show ?case by (cases "m k") simp_all
next
  case (Cons e es)
  then show ?case
    by (cases "m k") (simp_all add: increment_lookup)
qed

lemma init_counts_lookup:
  "k \<noteq> ''__proto__'' \<Longrightarrow>
   init_counts m ds k = (if k \<in> set (map n_id ds) then Some 0 else m k)"
  by (induction ds arbitrary: m) auto

lemma connectionCount_node:
  "d \<in> set (g_nodes g) \<Longrightarrow> n_id d \<noteq> ''__proto__'' \<Longrightarrow>
   lookup_or_zero (connectionCount g) (n_id d) =
     Count (count_list (map e_source (g_edges g)) (n_id d)
            + count_list (map e_target (g_edges g)) (n_id d))"
  by (simp add: connectionCount_def count_links_lookup init_counts_lookup lookup_or_zero_def)

lemma map_indexed: "map (\<lambda>(i, d). f d) (zip [0 ..< length xs] xs) = map f xs"
proof -
  have "map (\<lambda>(i, d). f d) (zip [0 ..< length xs] xs) = map (f \<circ> snd) (zip [0 ..< length xs] xs)"
    by (simp add: case_prod_unfold comp_def)
  also have "\<dots> = map f (map snd (zip [0 ..< length xs] xs))"
    by (simp only: map_map)
  also have "\<dots> = map f xs"
    by simp
  finally show ?thesis .
qed

lemma working_nodes_id_connections:
  "map (\<lambda>nd. (n_id nd, connections nd)) (working_nodes place g) =
     map (\<lambda>d. (n_id d, lookup_or_zero (connectionCount g) (n_id d))) (g_nodes g)"
proof -
  have "map (\<lambda>nd. (n_id nd, connections nd)) (working_nodes place g) =
        map (\<lambda>(i, d). (n_id d, lookup_or_zero (connectionCount g) (n_id d)))
            (zip [0 ..< length (g_nodes g)] (g_nodes g))"
    by (simp add: working_nodes_def working_node_def gnode.extend_def case_prod_unfold)
  then show ?thesis
    by (simp only: map_indexed)
qed

text \<open>Apart from a node of id \<open>__proto__\<close>, the working nodes carry the endpoint counts.\<close>

lemma working_nodes_connections:
  "map connections (filter (\<lambda>nd. n_id nd \<noteq> ''__proto__'') (working_nodes place g)) =
     map (\<lambda>d. Count (count_list (map e_source (g_edges g)) (n_id d)
                    + count_list (map e_target (g_edges g)) (n_id d)))
         (filter (\<lambda>d. n_id d \<noteq> ''__proto__'') (g_nodes g))"
proof -
  let ?p = "\<lambda>x :: string \<times> conn. fst x \<noteq> ''__proto__''"
  have "map connections (filter (\<lambda>nd. n_id nd \<noteq> ''__proto__'') (working_nodes place g)) =
        map snd (filter ?p (map (\<lambda>nd. (n_id nd, connections nd)) (working_nodes place g)))"
    by (simp add: filter_map comp_def)
  also have "\<dots> = map snd (filter ?p
        (map (\<lambda>d. (n_id d, lookup_or_zero (connectionCount g) (n_id d))) (g_nodes g)))"
    by (simp only: working_nodes_id_connections)
  also have "\<dots> = map (\<lambda>d. lookup_or_zero (connectionCount g) (n_id d))
                        (filter (\<lambda>d. n_id d \<noteq> ''__proto__'') (g_nodes g))"
    by (simp add: filter_map comp_def)
  also have "\<dots> = map (\<lambda>d. Count (count_list (map e_source (g_edges g)) (n_id d)
                    + count_list (map e_target (g_edges g)) (n_id d)))
         (filter (\<lambda>d. n_id d \<noteq> ''__proto__'') (g_nodes g))"
    by (rule map_cong) (simp_all add: connectionCount_node)
  finally show ?thesis .
qed

lemma no_endpoint_iff:
  "(count_list (map e_source es) k + count_list (map e_target es) k = 0) =
   (filter (\<lambda>e. e_source e = k \<or> e_target e = k) es = [])"
  by (induction es) auto

lemma working_nodes_orphans:
  "map (\<lambda>nd. connections nd = Count 0)
       (filter (\<lambda>nd. n_id nd \<noteq> ''__proto__'') (working_nodes place g)) =
     map (\<lambda>d. filter (\<lambda>e. e_source e = n_id d \<or> e_target e = n_id d) (g_edges g) = [])
         (filter (\<lambda>d. n_id d \<noteq> ''__proto__'') (g_nodes g))"
proof -
  have "map (\<lambda>nd. connections nd = Count 0)
          (filter (\<lambda>nd. n_id nd \<noteq> ''__proto__'') (working_nodes place g)) =
        map (\<lambda>c. c = Count 0)
          (map connections (filter (\<lambda>nd. n_id nd \<noteq> ''__proto__'') (working_nodes place g)))"
    by (simp add: comp_def)
  also have "\<dots> = map (\<lambda>d. count_list (map e_source (g_edges g)) (n_id d)
             + count_list (map e_target (g_edges g)) (n_id d) = 0)
          (filter (\<lambda>d. n_id d \<noteq> ''__proto__'') (g_nodes g))"
    by (simp add: working_nodes_connections comp_def)
  also have "\<dots> = map (\<lambda>d. filter (\<lambda>e. e_source e = n_id d \<or> e_target e = n_id d) (g_edges g) = [])
         (filter (\<lambda>d. n_id d \<noteq> ''__proto__'') (g_nodes g))"
    by (simp only: no_endpoint_iff)
  finally show ?thesis .
qed

lemma nodes_renderLinks: "nodes (renderLinks s) = nodes s"
  by (simp add: renderLinks_def)

lemma nodes_renderNodes: "nodes (renderNodes s) = nodes s"
  by (simp add: renderNodes_def Let_def)

lemma nodes_renderLabels: "nodes (renderLabels s) = nodes s"
  by (simp add: renderLabels_def Let_def)

lemma nodes_render: "nodes (fst (render place g s)) = working_nodes place g"
  by (simp add: render_def Let_def nodes_renderLinks nodes_renderNodes nodes_renderLabels
      split: prod.split option.split)

text \<open>The joined elements are bound to the data, in the order of the data.\<close>

lemma d3_join_datum:
  assumes "\<And>d e. dat (upd d e) = d" and "\<And>d. dat (enter d) = d"
  shows "map dat (d3_join key upd enter pool ds) = ds"
  by (induction ds arbitrary: pool) (simp_all add: assms split: option.split)

text \<open>The last circle of every node group is the circle \<open>renderNodes\<close> has just appended.\<close>

lemma renderNodes_last_circle:
  "map (\<lambda>e. last (ne_circles e)) (existing (nodeElements (renderNodes s))) =
     map baseline_circle (nodes s)"
proof -
  let ?joined = "d3_join (\<lambda>e. n_id (ne_datum e)) (\<lambda>d e. e\<lparr>ne_datum := d\<rparr>)
              (\<lambda>d. \<lparr>ne_id = ''node-'' @ n_id d, ne_datum = d, ne_dimmed = False, ne_circles = []\<rparr>)
              (existing (nodeElements s)) (nodes s)"
  have "map (\<lambda>e. last (ne_circles e)) (existing (nodeElements (renderNodes s))) =
        map (baseline_circle \<circ> ne_datum) ?joined"
    by (simp add: renderNodes_def Let_def existing_def comp_def)
  also have "\<dots> = map baseline_circle (map ne_datum ?joined)"
    by (simp only: map_map)
  also have "\<dots> = map baseline_circle (nodes s)"
    by (subst d3_join_datum) simp_all
  finally show ?thesis .
qed

lemma render_last_circle:
  assumes "snd (render place g s) = Inr st"
  shows "map (\<lambda>e. last (ne_circles e)) (existing (nodeElements (fst (render place g s)))) =
           map baseline_circle (nodes (fst (render place g s)))"
proof -
  obtain ls err
    where il: "initialize_links (working_nodes place g) (map copy_edge (g_edges g)) = (ls, err)"
    by (cases "initialize_links (working_nodes place g) (map copy_edge (g_edges g))")
  from assms il have none: "err = None"
    by (cases err) (simp_all add: render_def Let_def)
  let ?s0 = "renderLinks (s\<lparr>graph := Some g, nodes := working_nodes place g, links := ls,
                   simulation :=
                     Some \<lparr>sim_center = (real_of_int (width s) / 2, real_of_int (height s) / 2),
                           sim_alpha = 1, sim_restarts = 0\<rparr>\<rparr>)"
  have r: "fst (render place g s) = renderLabels (renderNodes ?s0)"
    using il none by (simp add: render_def Let_def)
  have "existing (nodeElements (renderLabels (renderNodes ?s0))) =
        existing (nodeElements (renderNodes ?s0))"
    by (simp add: renderLabels_def Let_def)
  then show ?thesis
    by (simp add: r renderNodes_last_circle nodes_renderLabels nodes_renderNodes)
qed

lemma baseline_style:
  "(c_stroke (baseline_circle d), c_stroke_dasharray (baseline_circle d),
    c_opacity (baseline_circle d)) =
   (if connections d = Count 0 then (''#cbd5e1'', ''4,4'', 0.6) else (''#ffffff'', ''0'', 1))"
  by (simp add: baseline_circle_def)

text \<open>
  C4, as stated, fails on a self-loop: the node A with the single edge A-A gets the
  connection count 2, while one edge has A as source or target.
\<close>

theorem self_loop_counts_twice:
  "map connections (nodes (fst (render phyllotaxis ex_selfloop (constructor 800 600))))
     = [Count 2]
   \<and> map (\<lambda>d. length (filter (\<lambda>e. e_source e = n_id d \<or> e_target e = n_id d)
                          (g_edges ex_selfloop))) (g_nodes ex_selfloop) = [1]"
  by (simp add: ex_defs render_defs)

text \<open>
  C4 (amended): after every ingest, whether or not \<open>render\<close> completes, the connection count
  of every working node whose id is not \<open>__proto__\<close> is the number of edges with its id as
  source plus the number of edges with its id as target (an edge from a node to itself counts
  twice), and that count is 0 exactly when no edge has the node's id as source or target.
  When \<open>render\<close> completes, the circle it has drawn for each working node, the last and
  topmost of the node's group, has the orphan styling (grey dashed stroke, opacity 0.6)
  exactly when the node's connection count is the number 0, and the plain styling otherwise.
\<close>

theorem render_connections_count_endpoints:
  "map connections (filter (\<lambda>nd. n_id nd \<noteq> ''__proto__'') (nodes (fst (render place g s)))) =
     map (\<lambda>d. Count (count_list (map e_source (g_edges g)) (n_id d)
                    + count_list (map e_target (g_edges g)) (n_id d)))
         (filter (\<lambda>d. n_id d \<noteq> ''__proto__'') (g_nodes g))
   \<and> map (\<lambda>nd. connections nd = Count 0)
         (filter (\<lambda>nd. n_id nd \<noteq> ''__proto__'') (nodes (fst (render place g s)))) =
       map (\<lambda>d. filter (\<lambda>e. e_source e = n_id d \<or> e_target e = n_id d) (g_edges g) = [])
           (filter (\<lambda>d. n_id d \<noteq> ''__proto__'') (g_nodes g))
   \<and> (snd (render place g s) = Inr st \<longrightarrow>
        map (\<lambda>e. (c_stroke (last (ne_circles e)), c_stroke_dasharray (last (ne_circles e)),
                  c_opacity (last (ne_circles e))))
            (existing (nodeElements (fst (render place g s)))) =
        map (\<lambda>nd. if connections nd = Count 0 then (''#cbd5e1'', ''4,4'', 0.6)
                   else (''#ffffff'', ''0'', 1))
            (nodes (fst (render place g s))))"
proof -
  have drawn: "map (\<lambda>e. (c_stroke (last (ne_circles e)), c_stroke_dasharray (last (ne_circles e)),
                  c_opacity (last (ne_circles e))))
            (existing (nodeElements (fst (render place g s)))) =
        map (\<lambda>nd. if connections nd = Count 0 then (''#cbd5e1'', ''4,4'', 0.6)
                   else (''#ffffff'', ''0'', 1))
            (nodes (fst (render place g s)))"
    if ok: "snd (render place g s) = Inr st"
  proof -
    have "map (\<lambda>e. (c_stroke (last (ne_circles e)), c_stroke_dasharray (last (ne_circles e)),
                  c_opacity (last (ne_circles e))))
            (existing (nodeElements (fst (render place g s)))) =
          map (\<lambda>c. (c_stroke c, c_stroke_dasharray c, c_opacity c))
            (map (\<lambda>e. last (ne_circles e)) (existing (nodeElements (fst (render place g s)))))"
      by (simp add: comp_def)
    also have "\<dots> = map (\<lambda>c. (c_stroke c, c_stroke_dasharray c, c_opacity c))
            (map baseline_circle (nodes (fst (render place g s))))"
      by (simp only: render_last_circle [OF ok])
    also have "\<dots> = map (\<lambda>nd. if connections nd = Count 0 then (''#cbd5e1'', ''4,4'', 0.6)
                   else (''#ffffff'', ''0'', 1))
            (nodes (fst (render place g s)))"
      by (simp add: comp_def baseline_style)
    finally show ?thesis .
  qed
  show ?thesis
    using drawn by (simp only: nodes_render working_nodes_connections working_nodes_orphans) simp
qed

lemma ex_rendered_ok:
  "snd (render phyllotaxis ex_graph (constructor 800 600)) =
     Inr \<lparr>nodeCount = 4, linkCount = 2, orphanCount = 1\<rparr>"
  by (simp add: ex_defs render_defs upt4)

lemma ex_graph_connections:
  "map connections (nodes ex_rendered) = [Count 2, Count 1, Count 1, Count 0]"
  by (simp add: ex_defs render_defs upt4)

lemma ex_rendered_styles:
  "map (\<lambda>nd. if connections nd = Count 0 then (''#cbd5e1'', ''4,4'', 0.6 :: real)
              else (''#ffffff'', ''0'', 1))
       (nodes ex_rendered) =
     [(''#ffffff'', ''0'', 1), (''#ffffff'', ''0'', 1), (''#ffffff'', ''0'', 1),
      (''#cbd5e1'', ''4,4'', 0.6)]"
  by (simp add: ex_defs render_defs upt4)

text \<open>
  C4, witness: the graph A, B, C, D with edges A-B and A-C renders completely; the counts
  are 2, 1, 1, 0 and only D is drawn as an orphan.
\<close>

theorem render_connections_count_endpoints_witness:
  "snd (render phyllotaxis ex_graph (constructor 800 600)) =
     Inr \<lparr>nodeCount = 4, linkCount = 2, orphanCount = 1\<rparr>
   \<and> map connections (nodes ex_rendered) = [Count 2, Count 1, Count 1, Count 0]
   \<and> map (\<lambda>e. (c_stroke (last (ne_circles e)), c_stroke_dasharray (last (ne_circles e)),
               c_opacity (last (ne_circles e))))
         (existing (nodeElements ex_rendered)) =
       [(''#ffffff'', ''0'', 1), (''#ffffff'', ''0'', 1), (''#ffffff'', ''0'', 1),
        (''#cbd5e1'', ''4,4'', 0.6)]"
proof -
  note inst = render_connections_count_endpoints
          [of phyllotaxis ex_graph "constructor 800 600"
              "\<lparr>nodeCount = 4, linkCount = 2, orphanCount = 1\<rparr>"]
  from inst ex_rendered_ok
  have "map (\<lambda>e. (c_stroke (last (ne_circles e)), c_stroke_dasharray (last (ne_circles e)),
               c_opacity (last (ne_circles e))))
         (existing (nodeElements ex_rendered)) =
        map (\<lambda>nd. if connections nd = Count 0 then (''#cbd5e1'', ''4,4'', 0.6)
                   else (''#ffffff'', ''0'', 1))
            (nodes ex_rendered)"
    unfolding ex_rendered_def by blast
  with ex_rendered_ok ex_graph_connections ex_rendered_styles show ?thesis
    by simp
qed

section \<open>Radius\<close>

text \<open>
  C5, as stated, fails twice. A node whose id is \<open>__proto__\<close> gets the radius \<open>NaN\<close>, which
  is in no interval. And the engine has no sizing policy to select: for the node N, of
  novelty score 1 and one connection, it computes the radius from the connection count,
  where the novelty-based sizing of the legacy engine gives 15.
\<close>

theorem radius_nan_and_no_policy:
  "map getNodeRadius (nodes (fst (render phyllotaxis ex_proto (constructor 800 600))))
     = [NaN, Num (6 + 19 / 15)]
   \<and> map getNodeRadius_legacy (g_nodes ex_proto) = [15, 15]"
  by (simp add: ex_defs render_defs getNodeRadius_def getNodeRadius_legacy_def or_half_def
        baseRadius_def maxRadius_def)

text \<open>
  C5 (amended): on every node whose connection count is a number the radius is a number,
  monotonic non-decreasing in the connection count and within the closed interval from
  \<open>baseRadius\<close> (6) to \<open>maxRadius\<close> (25); the radius is a function of \<open>connections\<close> alone, and
  the novelty score has no influence on it. The engine has no sizing policy to select: the
  novelty-based sizing is the \<open>getNodeRadius\<close> of the legacy engine only, a function of the
  novelty score alone with values from 5 to 15.
\<close>

theorem getNodeRadius_count_monotone_bounded:
  "(connections a = Count m \<and> connections b = Count n \<and> m \<le> n \<longrightarrow>
      (\<exists>ra rb. getNodeRadius a = Num ra \<and> getNodeRadius b = Num rb \<and> ra \<le> rb))
   \<and> (connections a = Count m \<longrightarrow>
        (\<exists>r. getNodeRadius a = Num r \<and> baseRadius \<le> r \<and> r \<le> maxRadius))
   \<and> (connections a = connections b \<longrightarrow> getNodeRadius a = getNodeRadius b)
   \<and> getNodeRadius (a\<lparr>n_novelty_score := v\<rparr>) = getNodeRadius a
   \<and> 5 \<le> getNodeRadius_legacy d \<and> getNodeRadius_legacy d \<le> 15
   \<and> (n_novelty_score c = n_novelty_score d \<longrightarrow>
        getNodeRadius_legacy c = getNodeRadius_legacy d)"
  by (auto simp: getNodeRadius_def getNodeRadius_legacy_def baseRadius_def maxRadius_def
        Let_def min_def max_def)

lemma ex_rendered_nth:
  "connections (nodes ex_rendered ! 0) = Count 2"
  "connections (nodes ex_rendered ! 1) = Count 1"
  "connections (nodes ex_rendered ! 2) = Count 1"
  "getNodeRadius (nodes ex_rendered ! 0) = Num (6 + 38 / 15)"
  "getNodeRadius (nodes ex_rendered ! 1) = Num (6 + 19 / 15)"
  "getNodeRadius (nodes ex_rendered ! 2) = Num (6 + 19 / 15)"
  by (simp_all add: ex_defs render_defs upt4 getNodeRadius_def baseRadius_def maxRadius_def)

text \<open>
  C5, witness: in the example graph B (one connection) has a radius between 6 and 25, no
  larger than that of A (two connections) and equal to that of C (one connection); the
  novelty scores of the example nodes are equal, and so are their legacy radii.
\<close>

theorem getNodeRadius_count_monotone_bounded_witness:
  "connections (nodes ex_rendered ! 1) = Count 1 \<and> connections (nodes ex_rendered ! 0) = Count 2
   \<and> (1::nat) \<le> 2
   \<and> getNodeRadius (nodes ex_rendered ! 1) = Num (6 + 19 / 15)
   \<and> getNodeRadius (nodes ex_rendered ! 0) = Num (6 + 38 / 15)
   \<and> (6 + 19 / 15 :: real) \<le> 6 + 38 / 15
   \<and> baseRadius \<le> 6 + 19 / 15 \<and> (6 + 19 / 15 :: real) \<le> maxRadius
   \<and> connections (nodes ex_rendered ! 1) = connections (nodes ex_rendered ! 2)
   \<and> getNodeRadius (nodes ex_rendered ! 1) = getNodeRadius (nodes ex_rendered ! 2)
   \<and> n_novelty_score (ex_node ''A'' ''T1'') = n_novelty_score (ex_node ''B'' ''T2'')
   \<and> getNodeRadius_legacy (ex_node ''A'' ''T1'') = getNodeRadius_legacy (ex_node ''B'' ''T2'')"
proof -
  note ab = getNodeRadius_count_monotone_bounded
              [of "nodes ex_rendered ! 1" 1 "nodes ex_rendered ! 0" 2 None
                  "ex_node ''B'' ''T2''" "ex_node ''A'' ''T1''"]
  note bc = getNodeRadius_count_monotone_bounded
              [of "nodes ex_rendered ! 1" 1 "nodes ex_rendered ! 2" 1 None
                  "ex_node ''B'' ''T2''" "ex_node ''A'' ''T1''"]
  have nov: "n_novelty_score (ex_node ''A'' ''T1'') = n_novelty_score (ex_node ''B'' ''T2'')"
    by (simp add: ex_node_def)
  from ab nov
  have leg: "getNodeRadius_legacy (ex_node ''A'' ''T1'') = getNodeRadius_legacy (ex_node ''B'' ''T2'')"
    by blast
  from ab ex_rendered_nth
  have le: "(6 + 19 / 15 :: real) \<le> 6 + 38 / 15"
    and bd: "baseRadius \<le> 6 + 19 / 15 \<and> (6 + 19 / 15 :: real) \<le> maxRadius"
    by auto
  from bc ex_rendered_nth
  have eq: "getNodeRadius (nodes ex_rendered ! 1) = getNodeRadius (nodes ex_rendered ! 2)"
    by simp
  from nov leg le bd eq ex_rendered_nth show ?thesis
    by simp
qed

section \<open>Positions across ingests\<close>

lemma working_nodes_positions:
  "map (\<lambda>nd. (pos_x nd, pos_y nd)) (working_nodes place g) = map place [0 ..< length (g_nodes g)]"
proof -
  have "map (\<lambda>nd. (pos_x nd, pos_y nd)) (working_nodes place g) =
        map (place \<circ> fst) (zip [0 ..< length (g_nodes g)] (g_nodes g))"
    by (simp add: working_nodes_def working_node_def gnode.extend_def case_prod_unfold comp_def)
  also have "\<dots> = map place (map fst (zip [0 ..< length (g_nodes g)] (g_nodes g)))"
    by (simp only: map_map)
  also have "\<dots> = map place [0 ..< length (g_nodes g)]"
    by simp
  finally show ?thesis .
qed

text \<open>
  C2, as stated, fails: the node A sits at the centre (400, 300) of the viewport; after
  the same snapshot is ingested again (a superset of itself) A is back at its initial
  placement.
\<close>

theorem reingest_resets_position:
  "set (map n_id (nodes ex_settled)) \<subseteq> set (map n_id (g_nodes ex_single))
   \<and> \<not> positions_preserved ex_settled (fst (render phyllotaxis ex_single ex_settled))"
  by (simp add: ex_defs render_defs positions_preserved_def phyllotaxis_0)

text \<open>
  C2 (amended): every ingest builds the working set from fresh copies of the snapshot's
  nodes, so each node, whether or not its id was present before, gets the position the
  simulation's initial placement assigns to its index in the snapshot; the working set after
  an ingest does not depend on the state before it, and no position is carried over.
\<close>

theorem render_positions_from_placement:
  "map (\<lambda>nd. (pos_x nd, pos_y nd)) (nodes (fst (render place g s))) =
     map place [0 ..< length (g_nodes g)]
   \<and> nodes (fst (render place g s)) = nodes (fst (render place g s'))"
  by (simp only: nodes_render working_nodes_positions simp_thms)

section \<open>Search highlight reset\<close>

lemma reset_never_baseline: "reset_circle c \<noteq> baseline_circle d"
proof
  assume "reset_circle c = baseline_circle d"
  then have "c_opacity (reset_circle c) = c_opacity (baseline_circle d)" by simp
  then show False by (simp add: reset_circle_def baseline_circle_def split: if_splits)
qed

text \<open>
  C3 fails on the code: on the graph A, B, C, D with edges A-B and A-C, never highlighted,
  the rendered circles have stroke \<open>#ffffff\<close> and opacity 1 (A, B, C) and the orphan D has
  stroke \<open>#cbd5e1\<close> and opacity 0.6. After \<open>highlightSearchResults([])\<close> every circle has
  stroke \<open>#ffffff\<close> and opacity 0.7. And once A has been highlighted,
  \<open>highlightSearchResults([])\<close> leaves the \<open>filter\<close> attribute on its circle, which no
  circle has at baseline.
\<close>

theorem highlight_reset_misses_baseline:
  "map (\<lambda>e. map (\<lambda>c. (c_stroke c, c_opacity c)) (ne_circles e))
       (existing (nodeElements ex_rendered))
     = [[(''#ffffff'', 1)], [(''#ffffff'', 1)], [(''#ffffff'', 1)], [(''#cbd5e1'', 0.6)]]
   \<and> map (\<lambda>e. map (\<lambda>c. (c_stroke c, c_opacity c)) (ne_circles e))
         (existing (nodeElements (fst (highlightSearchResults css [] ex_rendered))))
     = [[(''#ffffff'', 0.7)], [(''#ffffff'', 0.7)], [(''#ffffff'', 0.7)], [(''#ffffff'', 0.7)]]
   \<and> map (\<lambda>e. map c_filter (ne_circles e)) (existing (nodeElements ex_rendered))
     = [[None], [None], [None], [None]]
   \<and> map (\<lambda>e. map c_filter (ne_circles e))
         (existing (nodeElements (fst (highlightSearchResults css [] ex_highlighted))))
     = [[Some ''brightness(1.2)''], [None], [None], [None]]"
  by (simp add: ex_defs render_defs upt4 highlight_defs)

section \<open>Resize\<close>

lemma ex_rendered_size:
  "simulation ex_rendered = Some \<lparr>sim_center = (400, 300), sim_alpha = 1, sim_restarts = 0\<rparr>"
  "width ex_rendered = 800"
  "height ex_rendered = 600"
  by (simp_all add: ex_defs render_defs)

text \<open>
  C8: a resize event whose width and height equal the stored ones leaves the whole engine
  state, the simulation included, as it is; the simulation changes only when a dimension
  differs, and then the centering force is recentred at the new centre, the energy is set
  to 0.3 and the simulation is restarted.
\<close>

theorem onWindowResize_only_on_change:
  "(newWidth = width s \<and> newHeight = height s \<longrightarrow> onWindowResize newWidth newHeight s = s)
   \<and> (simulation (onWindowResize newWidth newHeight s) \<noteq> simulation s
        \<longrightarrow> newWidth \<noteq> width s \<or> newHeight \<noteq> height s)
   \<and> (newWidth \<noteq> width s \<or> newHeight \<noteq> height s \<longrightarrow>
        simulation (onWindowResize newWidth newHeight s) =
          map_option
            (\<lambda>sim. sim\<lparr>sim_center := (real_of_int newWidth / 2, real_of_int newHeight / 2),
                       sim_alpha := 0.3, sim_restarts := Suc (sim_restarts sim)\<rparr>)
            (simulation s))"
  by (auto simp: onWindowResize_def)

text \<open>
  C8, witness: the engine at 800 by 600 ignores a resize to 800 by 600 and recentres and
  restarts on a resize to 1024 by 600.
\<close>

theorem onWindowResize_only_on_change_witness:
  "onWindowResize 800 600 ex_rendered = ex_rendered
   \<and> simulation (onWindowResize 1024 600 ex_rendered) =
       Some \<lparr>sim_center = (512, 300), sim_alpha = 0.3, sim_restarts = 1\<rparr>"
  using onWindowResize_only_on_change [of 800 ex_rendered 600]
        onWindowResize_only_on_change [of 1024 ex_rendered 600]
  by (simp add: ex_rendered_size)

section \<open>Theme filter\<close>

lemma clearFilter_eq: "clearFilter s = filterByTheme None s"
  by (simp add: clearFilter_def filterByTheme_def)

lemma dim_state_updateHighlight:
  "dim_state (updateHighlight s) =
     (map (\<lambda>e. node_dimmed (currentTheme s) (ne_datum e)) (existing (nodeElements s)),
      map (\<lambda>e. node_dimmed (currentTheme s) (lb_datum e)) (existing (labelElements s)),
      map (\<lambda>e. link_dimmed (currentTheme s) (le_datum e)) (existing (linkElements s)))"
  by (simp add: dim_state_def updateHighlight_def existing_def comp_def split: option.split)

lemma dim_state_filterByTheme:
  "dim_state (filterByTheme t s) =
     (map (\<lambda>e. node_dimmed t (ne_datum e)) (existing (nodeElements s)),
      map (\<lambda>e. node_dimmed t (lb_datum e)) (existing (labelElements s)),
      map (\<lambda>e. link_dimmed t (le_datum e)) (existing (linkElements s)))"
  by (simp add: filterByTheme_def dim_state_updateHighlight)

lemma lengths_filterByTheme:
  "length (existing (nodeElements (filterByTheme t s))) = length (existing (nodeElements s))"
  "length (existing (labelElements (filterByTheme t s))) = length (existing (labelElements s))"
  "length (existing (linkElements (filterByTheme t s))) = length (existing (linkElements s))"
  by (simp_all add: filterByTheme_def updateHighlight_def existing_def split: option.split)

lemma undimmed_inactive: "\<not> truthy t \<Longrightarrow> undimmed (filterByTheme t s)"
  by (simp add: undimmed_def dim_state_filterByTheme lengths_filterByTheme node_dimmed_def
        link_dimmed_def map_replicate_const)

lemma dim_state_clearFilter:
  "dim_state (clearFilter s) =
     (replicate (length (existing (nodeElements s))) False,
      replicate (length (existing (labelElements s))) False,
      replicate (length (existing (linkElements s))) False)"
  by (simp add: clearFilter_def dim_state_updateHighlight node_dimmed_def link_dimmed_def truthy_def
        map_replicate_const)

lemma ex_rendered_dim:
  "dim_state ex_rendered =
     ([False, False, False, False], [False, False, False, False], [False, False])"
  by (simp add: ex_defs render_defs upt4 dim_state_def)

lemma ex_rendered_lengths:
  "length (existing (nodeElements ex_rendered)) = 4"
  "length (existing (labelElements ex_rendered)) = 4"
  "length (existing (linkElements ex_rendered)) = 2"
  by (simp_all add: ex_defs render_defs upt4)

lemma ex_rendered_T2:
  "map (\<lambda>e. n_theme (ne_datum e) \<noteq> ''T2'') (existing (nodeElements ex_rendered))
     = [True, False, True, False]"
  "map (\<lambda>e. n_theme (lb_datum e) \<noteq> ''T2'') (existing (labelElements ex_rendered))
     = [True, False, True, False]"
  "map (\<lambda>e. endpoint_theme (source (le_datum e)) \<noteq> Some ''T2''
           \<and> endpoint_theme (target (le_datum e)) \<noteq> Some ''T2'')
       (existing (linkElements ex_rendered))
     = [False, True]"
  by (simp_all add: ex_defs render_defs upt4 endpoint_theme_def)

text \<open>
  C6: for an active theme \<open>t\<close> (a theme name, which is not empty), \<open>filterByTheme(t)\<close> marks a
  node or label as dimmed if and only if its theme differs from \<open>t\<close>, and an edge if and
  only if neither endpoint's theme equals \<open>t\<close>. \<open>filterByTheme(null)\<close> and \<open>clearFilter()\<close> clear
  all dimming (as does the empty string, which the coordinator never passes), and
  \<open>clearFilter()\<close> after \<open>filterByTheme(u)\<close>, for any \<open>u\<close>, yields the dim-state of a view that
  was never filtered.
\<close>

theorem filterByTheme_dims_nonmatching:
  "(t \<noteq> [] \<longrightarrow>
      dim_state (filterByTheme (Some t) s) =
        (map (\<lambda>e. n_theme (ne_datum e) \<noteq> t) (existing (nodeElements s)),
         map (\<lambda>e. n_theme (lb_datum e) \<noteq> t) (existing (labelElements s)),
         map (\<lambda>e. endpoint_theme (source (le_datum e)) \<noteq> Some t
                 \<and> endpoint_theme (target (le_datum e)) \<noteq> Some t)
             (existing (linkElements s))))
   \<and> undimmed (filterByTheme (Some []) s)
   \<and> undimmed (filterByTheme None s)
   \<and> undimmed (clearFilter (filterByTheme u s))
   \<and> (undimmed s \<longrightarrow> dim_state (clearFilter (filterByTheme u s)) = dim_state s)"
proof -
  have a: "t \<noteq> [] \<longrightarrow>
      dim_state (filterByTheme (Some t) s) =
        (map (\<lambda>e. n_theme (ne_datum e) \<noteq> t) (existing (nodeElements s)),
         map (\<lambda>e. n_theme (lb_datum e) \<noteq> t) (existing (labelElements s)),
         map (\<lambda>e. endpoint_theme (source (le_datum e)) \<noteq> Some t
                 \<and> endpoint_theme (target (le_datum e)) \<noteq> Some t)
             (existing (linkElements s)))"
    by (simp add: dim_state_filterByTheme node_dimmed_def link_dimmed_def truthy_def)
  have b: "undimmed (filterByTheme (Some []) s)" and c: "undimmed (filterByTheme None s)"
    by (simp_all add: undimmed_inactive truthy_def)
  have d: "undimmed (clearFilter (filterByTheme u s))"
    by (simp add: clearFilter_eq undimmed_inactive truthy_def)
  have e: "undimmed s \<longrightarrow> dim_state (clearFilter (filterByTheme u s)) = dim_state s"
    by (simp add: undimmed_def dim_state_clearFilter lengths_filterByTheme)
  from a b c d e show ?thesis by simp
qed

text \<open>
  C6, witness: filtering the example graph by T2 dims A and C and the edge A-C;
  clearing the filter gives back the dim-state of the freshly rendered graph.
\<close>

theorem filterByTheme_dims_nonmatching_witness:
  "''T2'' \<noteq> [] \<and> undimmed ex_rendered
   \<and> dim_state (filterByTheme (Some ''T2'') ex_rendered) =
       ([True, False, True, False], [True, False, True, False], [False, True])
   \<and> dim_state (clearFilter (filterByTheme (Some ''T2'') ex_rendered)) = dim_state ex_rendered"
proof -
  note inst = filterByTheme_dims_nonmatching [of "''T2''" ex_rendered "Some ''T2''"]
  have u: "undimmed ex_rendered"
    by (simp add: undimmed_def ex_rendered_dim ex_rendered_lengths eval_nat_numeral)
  from inst have a: "dim_state (filterByTheme (Some ''T2'') ex_rendered) =
       ([True, False, True, False], [True, False, True, False], [False, True])"
    by (simp add: ex_rendered_T2)
  from inst u
  have b: "dim_state (clearFilter (filterByTheme (Some ''T2'') ex_rendered)) = dim_state ex_rendered"
    by blast
  from u a b show ?thesis by simp
qed

section \<open>Insight load failure\<close>

text \<open>
  C9: when the detail fetch fails (the fetch rejects, the response is not ok, or its body
  does not parse), \<open>loadInsight\<close> shows the inline error: the placeholder carries the text
  ``Failed to load insight'' and is displayed, the detail element is hidden. No exception
  leaves \<open>loadInsight\<close>, whatever the outcome of the fetch and of rendering, and the graph
  engine and the navigation panel are left as they are.
\<close>

theorem loadInsight_failure_shows_error:
  "loadInsight render_insight (Failure f) v = (showError ''Failed to load insight'' v, None)
   \<and> empty_text (fst (loadInsight render_insight (Failure f) v)) = ''Failed to load insight''
   \<and> empty_display (fst (loadInsight render_insight (Failure f) v)) = ''flex''
   \<and> detail_display (fst (loadInsight render_insight (Failure f) v)) = ''none''
   \<and> snd (loadInsight render_insight outcome v) = None
   \<and> snd (app_loadInsight render_insight outcome a) = None
   \<and> app_graph (fst (app_loadInsight render_insight outcome a)) = app_graph a
   \<and> app_sidebar (fst (app_loadInsight render_insight outcome a)) = app_sidebar a"
  by (simp add: loadInsight_def loadInsight_try_def showError_def app_loadInsight_def
        split: prod.split option.split fetch_outcome.split)

section \<open>Selecting a theme\<close>

lemma find_filter_other:
  "n \<noteq> k \<Longrightarrow>
   find (\<lambda>e. key e = k) (filter (\<lambda>e. key e \<noteq> n) pool) = find (\<lambda>e. key e = k) pool"
  by (induction pool) auto

text \<open>
  The first joined element of a key is the first datum of that key, bound to the first
  existing element of the key when there is one.
\<close>

lemma d3_join_find:
  assumes "\<And>d e. key (upd d e) = n_id d" and "\<And>d. key (enter d) = n_id d"
  shows "find (\<lambda>e. key e = k) (d3_join key upd enter pool ds) =
           (case find (\<lambda>d. n_id d = k) ds of
              None \<Rightarrow> None
            | Some d \<Rightarrow>
                Some (case find (\<lambda>e. key e = k) pool of None \<Rightarrow> enter d | Some e \<Rightarrow> upd d e))"
proof (induction ds arbitrary: pool)
  case Nil
  show ?case by simp
next
  case (Cons d ds)
  show ?case
  proof (cases "n_id d = k")
    case True
    then show ?thesis
      by (simp add: assms split: option.split)
  next
    case False
    then show ?thesis
      by (simp add: assms Cons.IH find_filter_other split: option.split)
  qed
qed

lemma find_map_key:
  assumes "\<And>e. key (f e) = key e"
  shows "find (\<lambda>e. key e = k) (map f xs) = map_option f (find (\<lambda>e. key e = k) xs)"
  by (induction xs) (simp_all add: assms)

lemma circles_of_renderNodes:
  "circles_of k (renderNodes s) =
     (case find (\<lambda>d. n_id d = k) (nodes s) of
        None \<Rightarrow> None
      | Some d \<Rightarrow>
          Some ((case circles_of k s of None \<Rightarrow> [] | Some cs \<Rightarrow> cs) @ [baseline_circle d]))"
proof -
  let ?key = "\<lambda>e. n_id (ne_datum e)"
  let ?f = "\<lambda>e. e\<lparr>ne_circles := ne_circles e @ [baseline_circle (ne_datum e)]\<rparr>"
  let ?joined = "d3_join ?key (\<lambda>d e. e\<lparr>ne_datum := d\<rparr>)
              (\<lambda>d. \<lparr>ne_id = ''node-'' @ n_id d, ne_datum = d, ne_dimmed = False, ne_circles = []\<rparr>)
              (existing (nodeElements s)) (nodes s)"
  have "circles_of k (renderNodes s) =
        map_option ne_circles (find (\<lambda>e. ?key e = k) (map ?f ?joined))"
    by (simp add: circles_of_def renderNodes_def Let_def existing_def)
  also have "\<dots> = map_option (ne_circles \<circ> ?f) (find (\<lambda>e. ?key e = k) ?joined)"
    by (subst find_map_key [where key = ?key and f = ?f]) (simp_all add: option.map_comp)
  also have "\<dots> = (case find (\<lambda>d. n_id d = k) (nodes s) of
        None \<Rightarrow> None
      | Some d \<Rightarrow>
          Some ((case circles_of k s of None \<Rightarrow> [] | Some cs \<Rightarrow> cs) @ [baseline_circle d]))"
    by (subst d3_join_find) (simp_all add: circles_of_def split: option.split)
  finally show ?thesis .
qed

lemma circles_of_renderLinks: "circles_of k (renderLinks s) = circles_of k s"
  by (simp add: circles_of_def renderLinks_def)

lemma circles_of_renderLabels: "circles_of k (renderLabels s) = circles_of k s"
  by (simp add: circles_of_def renderLabels_def Let_def)

lemma circles_of_filterByTheme: "circles_of k (filterByTheme t gs) = circles_of k gs"
proof -
  have "find (\<lambda>e. n_id (ne_datum e) = k) (map (\<lambda>e. e\<lparr>ne_dimmed := node_dimmed t (ne_datum e)\<rparr>) xs)
        = map_option (\<lambda>e. e\<lparr>ne_dimmed := node_dimmed t (ne_datum e)\<rparr>)
            (find (\<lambda>e. n_id (ne_datum e) = k) xs)"
    for xs :: "node_element list"
    by (rule find_map_key) simp
  then show ?thesis
    by (simp add: circles_of_def filterByTheme_def updateHighlight_def existing_def
          option.map_comp comp_def split: option.split)
qed

lemma find_working_node:
  assumes "k \<in> set (map n_id (g_nodes g))"
  shows "find (\<lambda>d. n_id d = k) (working_nodes place g) \<noteq> None"
proof -
  have "map n_id (working_nodes place g) =
        map (\<lambda>(i, d). n_id d) (zip [0 ..< length (g_nodes g)] (g_nodes g))"
    by (simp add: working_nodes_def working_node_def gnode.extend_def case_prod_unfold)
  then have "map n_id (working_nodes place g) = map n_id (g_nodes g)"
    by (simp only: map_indexed)
  with assms have "k \<in> n_id ` set (working_nodes place g)"
    by (metis list.set_map)
  then show ?thesis
    by (auto simp: find_None_iff)
qed

lemma circles_of_frame:
  "circles_of k (gs\<lparr>graph := a, nodes := b, links := c, simulation := d\<rparr>) = circles_of k gs"
  "circles_of k (gs\<lparr>graph := a, nodes := b, links := c\<rparr>) = circles_of k gs"
  by (simp_all add: circles_of_def)

text \<open>
  A node that is drawn and is in the ingested snapshot keeps all its circles, as they are:
  \<open>renderNodes\<close> only appends one.
\<close>

lemma circles_of_render:
  assumes "k \<in> set (map n_id (g_nodes g))" and "circles_of k gs = Some cs"
  shows "map_option (take (length cs)) (circles_of k (fst (render place g gs))) = Some cs"
proof -
  obtain ls err
    where il: "initialize_links (working_nodes place g) (map copy_edge (g_edges g)) = (ls, err)"
    by (cases "initialize_links (working_nodes place g) (map copy_edge (g_edges g))")
  obtain d where d: "find (\<lambda>d. n_id d = k) (working_nodes place g) = Some d"
    using find_working_node [OF assms(1), of place] by blast
  show ?thesis
  proof (cases err)
    case None
    with il d assms(2) show ?thesis
      by (simp add: render_def Let_def circles_of_renderNodes circles_of_renderLinks
            circles_of_renderLabels circles_of_frame nodes_renderLinks)
  next
    case (Some e)
    with il assms(2) show ?thesis
      by (simp add: render_def Let_def circles_of_frame)
  qed
qed

lemma circles_of_themeClickCallback:
  assumes "k \<in> set (map n_id (g_nodes graphData))" and "circles_of k gs = Some cs"
  shows "map_option (take (length cs))
           (circles_of k (themeClickCallback place graphData theme gs)) = Some cs"
proof (cases "truthy theme")
  case True
  then show ?thesis
    using assms(2) by (simp add: themeClickCallback_def circles_of_filterByTheme)
next
  case False
  have "circles_of k (clearFilter gs) = Some cs"
    using assms(2) by (simp add: clearFilter_eq circles_of_filterByTheme)
  from circles_of_render [OF assms(1) this] False show ?thesis
    by (simp add: themeClickCallback_def)
qed

text \<open>
  C10: \<open>selectTheme\<close>, for a theme and for \<open>null\<close> alike, empties the search query and the
  search input and hides the results panel; the one callback it may call is the theme
  callback, which then sees the empty query and the hidden panel; it never calls the search
  callback, the only caller of \<open>highlightSearchResults\<close>. The coordinator's reaction to the
  theme callback leaves the circles of every node that stays in the graph as they were,
  search highlight included.
\<close>

theorem selectTheme_resets_search_without_onSearch:
  "searchQuery (fst (selectTheme themeName s)) = []
   \<and> input_value (fst (selectTheme themeName s)) = []
   \<and> results_display (fst (selectTheme themeName s)) = ''none''
   \<and> results_list (fst (selectTheme themeName s)) = []
   \<and> calls (fst (selectTheme themeName s)) =
       calls s @ (if has_onThemeClick s \<and> snd (selectTheme themeName s) = None
                  then [(OnThemeClick themeName, [], ''none'')] else [])
   \<and> onSearch_calls (fst (selectTheme themeName s)) = onSearch_calls s
   \<and> (k \<in> set (map n_id (g_nodes graphData)) \<and> circles_of k gs = Some cs \<longrightarrow>
        map_option (take (length cs))
          (circles_of k (themeClickCallback place graphData themeName gs)) = Some cs)"
proof -
  have "searchQuery (fst (selectTheme themeName s)) = []
   \<and> input_value (fst (selectTheme themeName s)) = []
   \<and> results_display (fst (selectTheme themeName s)) = ''none''
   \<and> results_list (fst (selectTheme themeName s)) = []
   \<and> calls (fst (selectTheme themeName s)) =
       calls s @ (if has_onThemeClick s \<and> snd (selectTheme themeName s) = None
                  then [(OnThemeClick themeName, [], ''none'')] else [])
   \<and> onSearch_calls (fst (selectTheme themeName s)) = onSearch_calls s"
    by (simp add: selectTheme_def hideSearchResults_def call_onThemeClick_def log_call_def Let_def
          onSearch_calls_def split: option.split list.split)
  then show ?thesis
    by (simp add: circles_of_themeClickCallback)
qed

lemma ex_highlighted_A:
  "map_option (map c_stroke) (circles_of ''A'' ex_highlighted) = Some [''#ffd700'']"
  by (simp add: circles_of_def highlight_defs ex_defs render_defs upt4)

lemma ex_sidebar_select:
  "snd (selectTheme None ex_sidebar) = None"
  "has_onThemeClick ex_sidebar"
  "calls ex_sidebar = []"
  by (simp_all add: ex_sidebar_def new_sidebar_def selectTheme_def hideSearchResults_def Let_def)

text \<open>
  C10, witness: with the results of a search for ``alpha'' shown and node A highlighted,
  selecting ``All Themes'' calls the theme callback only, and after the coordinator's
  reaction the first circle of A still has the highlight stroke.
\<close>

theorem selectTheme_resets_search_without_onSearch_witness:
  "''A'' \<in> set (map n_id (g_nodes ex_graph))
   \<and> map_option (map c_stroke) (circles_of ''A'' ex_highlighted) = Some [''#ffd700'']
   \<and> map_option (map c_stroke \<circ> take 1)
       (circles_of ''A'' (themeClickCallback phyllotaxis ex_graph None ex_highlighted))
       = Some [''#ffd700'']
   \<and> calls (fst (selectTheme None ex_sidebar)) = [(OnThemeClick None, [], ''none'')]"
proof -
  have m: "''A'' \<in> set (map n_id (g_nodes ex_graph))"
    by (simp add: ex_defs)
  obtain cs where cs: "circles_of ''A'' ex_highlighted = Some cs" "map c_stroke cs = [''#ffd700'']"
    using ex_highlighted_A by (cases "circles_of ''A'' ex_highlighted") auto
  then have len: "length cs = 1"
    by (metis length_map length_Cons list.size(3) One_nat_def)
  note inst = selectTheme_resets_search_without_onSearch
                [of None ex_sidebar "''A''" ex_graph ex_highlighted cs phyllotaxis]
  from inst m cs(1) len
  have "map_option (take 1)
          (circles_of ''A'' (themeClickCallback phyllotaxis ex_graph None ex_highlighted)) = Some cs"
    by simp
  then have kept: "map_option (map c_stroke \<circ> take 1)
       (circles_of ''A'' (themeClickCallback phyllotaxis ex_graph None ex_highlighted))
       = Some [''#ffd700'']"
    using cs(2)
    by (cases "circles_of ''A'' (themeClickCallback phyllotaxis ex_graph None ex_highlighted)") auto
  from inst have "calls (fst (selectTheme None ex_sidebar)) = [(OnThemeClick None, [], ''none'')]"
    by (simp add: ex_sidebar_select)
  with m ex_highlighted_A kept show ?thesis by simp
qed

section \<open>Debounced search\<close>

lemma fetches_log_call:
  "fetches (log_call (OnSearch ids) s) = fetches s"
  "fetches (log_call (OnThemeClick n) s) = fetches s"
  "fetches (log_call (Fetch rq) s) = fetches s @ [rq]"
  by (simp_all add: fetches_def log_call_def)

lemma onSearch_calls_log_call:
  "onSearch_calls (log_call (OnSearch ids) s) = onSearch_calls s @ [ids]"
  "onSearch_calls (log_call (OnThemeClick n) s) = onSearch_calls s"
  "onSearch_calls (log_call (Fetch rq) s) = onSearch_calls s"
  by (simp_all add: onSearch_calls_def log_call_def)

lemma build_request_q:
  "selectedTheme s' = selectedTheme s \<Longrightarrow> semantic_checked s' = semantic_checked s \<Longrightarrow>
   build_request s' = (build_request s)\<lparr>rq_q := searchQuery s'\<rparr>"
  by (simp add: build_request_def)

text \<open>
  A keystroke cancels the pending timer and arms a new one, unless it empties the query:
  then it reports to the search callback that there is no search.
\<close>

lemma on_input_armed:
  assumes "cancellable w"
  shows "armed (on_input v w)"
    and "searchQuery (sb (on_input v w)) = v"
    and "fetches (sb (on_input v w)) = fetches (sb w)"
    and "selectedTheme (sb (on_input v w)) = selectedTheme (sb w)"
    and "semantic_checked (sb (on_input v w)) = semantic_checked (sb w)"
    and "onSearch (sb (on_input v w)) = onSearch (sb w)"
    and "onSearch_calls (sb (on_input v w)) =
           onSearch_calls (sb w) @ (if v = [] \<and> onSearch (sb w) \<noteq> None then [None] else [])"
  using assms
  by (auto simp: on_input_def armed_def cancellable_def Let_def hideSearchResults_def
        call_onSearch_def log_call_def fetches_def onSearch_calls_def split: option.split)

text \<open>Less than the delay after a keystroke nothing fires.\<close>

lemma elapse_short:
  assumes "armed w" and "d < 300"
  shows "cancellable (elapse d w)" and "sb (elapse d w) = sb w"
  using assms
  by (auto simp: elapse_def armed_def cancellable_def clearTimeout_def Let_def
      split: if_splits option.splits)

text \<open>Once the delay has passed the armed timer has fired, once, and none is pending.\<close>

lemma elapse_long:
  assumes "armed w" and "300 \<le> T"
  shows "fetches (sb (elapse T w)) =
           fetches (sb w) @ (if searchQuery (sb w) = [] then [] else [build_request (sb w)])"
    and "timers (elapse T w) = []"
    and "onSearch_calls (sb (elapse T w)) = onSearch_calls (sb w)"
  using assms
  by (auto simp: elapse_def armed_def Let_def performSearch_def fetches_log_call
        onSearch_calls_log_call split: if_splits option.splits)

lemma armed_timers:
  "armed w \<Longrightarrow>
   map snd (timers w) = (if searchQuery (sb w) = [] then [] else [now w + 300])"
  by (cases "searchQuery (sb w) = []"; cases "searchTimeout (sb w)") (simp_all add: armed_def)

lemma run_Cons: "run (ev # evs) w = run evs (step ev w)"
  by (simp add: run_def)

lemma run_Nil: "run [] w = w"
  by (simp add: run_def)

lemma run_append: "run (evs @ evs') w = run evs' (run evs w)"
  by (simp add: run_def)

text \<open>The state after a run of keystrokes that follow one another within the delay.\<close>

lemma keystrokes_armed:
  assumes "armed w" and "list_all (\<lambda>k. fst k < 300) ks"
  shows "armed (run (concat (map (\<lambda>k. [Elapse (fst k), Input (snd k)]) ks)) w)
    \<and> searchQuery (sb (run (concat (map (\<lambda>k. [Elapse (fst k), Input (snd k)]) ks)) w)) =
        last (searchQuery (sb w) # map snd ks)
    \<and> fetches (sb (run (concat (map (\<lambda>k. [Elapse (fst k), Input (snd k)]) ks)) w)) =
        fetches (sb w)
    \<and> selectedTheme (sb (run (concat (map (\<lambda>k. [Elapse (fst k), Input (snd k)]) ks)) w)) =
        selectedTheme (sb w)
    \<and> semantic_checked (sb (run (concat (map (\<lambda>k. [Elapse (fst k), Input (snd k)]) ks)) w)) =
        semantic_checked (sb w)
    \<and> onSearch (sb (run (concat (map (\<lambda>k. [Elapse (fst k), Input (snd k)]) ks)) w)) =
        onSearch (sb w)
    \<and> onSearch_calls (sb (run (concat (map (\<lambda>k. [Elapse (fst k), Input (snd k)]) ks)) w)) =
        onSearch_calls (sb w) @
          (if onSearch (sb w) = None then []
           else map (\<lambda>v. None) (filter (\<lambda>v. v = []) (map snd ks)))"
  using assms
proof (induction ks arbitrary: w)
  case Nil
  then show ?case by (simp add: run_Nil)
next
  case (Cons k ks)
  let ?w = "on_input (snd k) (elapse (fst k) w)"
  from Cons.prems have short: "fst k < 300" and rest: "list_all (\<lambda>k. fst k < 300) ks"
    by simp_all
  have c: "cancellable (elapse (fst k) w)" and same: "sb (elapse (fst k) w) = sb w"
    using elapse_short [OF Cons.prems(1) short] by simp_all
  note inp = on_input_armed [OF c, of "snd k"]
  note ih = Cons.IH [OF inp(1) rest]
  show ?case
    using ih inp same by (simp add: run_Cons)
qed

text \<open>
  C7, as stated, fails when the last keystroke empties the input: typing ``a'' and
  deleting it 100 ms later fires no network search.
\<close>

theorem cleared_input_fires_no_search:
  "list_all (\<lambda>k. fst k < 300) [(100::nat, [])]
   \<and> fetches (sb (run (typing ''a'' [(100, [])] @ [Elapse 300]) new_world)) = []
   \<and> length (fetches (sb (run (typing ''a'' [(100, [])] @ [Elapse 300]) new_world))) \<noteq> 1"
  by (simp add: sidebar_defs)

text \<open>
  C7 (amended): for every sequence of keystrokes in which each follows the previous one
  within the debounce delay of 300 ms, started with no timer pending and followed by a pause
  of at least the delay: if the latest query is not empty, then after the last keystroke
  exactly one timer is pending, due a full delay later, and after the pause exactly one
  network search has been fired, which carries the latest query (with the selected theme,
  the mode and the limit 25); if the latest keystroke leaves the query empty, the pending
  call is cancelled, the timer is not restarted (no timer is pending after the keystroke)
  and no network search is fired. After the pause no timer is pending, and the search
  callback has been told that there is no search once for each keystroke that emptied the
  query and not otherwise.
\<close>

theorem debounce_fires_latest_query:
  assumes "timers w = []" and "list_all (\<lambda>k. fst k < 300) ks" and "300 \<le> T"
  shows "fetches (sb (run (typing v0 ks @ [Elapse T]) w)) =
           fetches (sb w) @
             (if last (v0 # map snd ks) = [] then []
              else [(build_request (sb w))\<lparr>rq_q := last (v0 # map snd ks)\<rparr>])
    \<and> map snd (timers (run (typing v0 ks) w)) =
         (if last (v0 # map snd ks) = [] then [] else [now (run (typing v0 ks) w) + 300])
    \<and> timers (run (typing v0 ks @ [Elapse T]) w) = []
    \<and> onSearch_calls (sb (run (typing v0 ks @ [Elapse T]) w)) =
         onSearch_calls (sb w) @
           (if onSearch (sb w) = None then []
            else map (\<lambda>v. None) (filter (\<lambda>v. v = []) (v0 # map snd ks)))"
proof -
  let ?keys = "concat (map (\<lambda>k. [Elapse (fst k), Input (snd k)]) ks)"
  let ?w1 = "on_input v0 w"
  let ?w2 = "run ?keys ?w1"
  have c: "cancellable w"
    using assms(1) by (simp add: cancellable_def clearTimeout_def split: option.split)
  note inp = on_input_armed [OF c, of v0]
  note keys = keystrokes_armed [OF inp(1) assms(2)]
  have typed: "run (typing v0 ks) w = ?w2"
    by (simp add: typing_def run_Cons)
  have paused: "run (typing v0 ks @ [Elapse T]) w = elapse T ?w2"
    by (simp add: typing_def run_Cons run_append run_Nil)
  from keys have armed2: "armed ?w2" by simp
  note pause = elapse_long [OF armed2 assms(3)]
  have q: "searchQuery (sb ?w2) = last (v0 # map snd ks)"
    using keys inp by simp
  have req: "build_request (sb ?w2) = (build_request (sb w))\<lparr>rq_q := last (v0 # map snd ks)\<rparr>"
    using build_request_q [of "sb ?w2" "sb w"] keys inp q by simp
  have a: "fetches (sb (elapse T ?w2)) =
           fetches (sb w) @
             (if last (v0 # map snd ks) = [] then []
              else [(build_request (sb w))\<lparr>rq_q := last (v0 # map snd ks)\<rparr>])"
    using pause(1) keys inp q req by simp
  have b: "map snd (timers ?w2) =
         (if last (v0 # map snd ks) = [] then [] else [now ?w2 + 300])"
    using armed_timers [OF armed2] q by simp
  have d: "onSearch_calls (sb (elapse T ?w2)) =
         onSearch_calls (sb w) @
           (if onSearch (sb w) = None then []
            else map (\<lambda>v. None) (filter (\<lambda>v. v = []) (v0 # map snd ks)))"
    using pause(3) keys inp by simp
  from a b pause(2) d show ?thesis
    by (simp only: typed paused simp_thms)
qed

text \<open>
  C7, witness: ``alp'', then ``alpha'' 100 ms later, then a pause: after the keystrokes one
  timer is pending, after the pause one search has been fired, for ``alpha''.
\<close>

theorem debounce_fires_latest_query_witness:
  "timers new_world = [] \<and> list_all (\<lambda>k. fst k < 300) [(100::nat, ''alpha'')] \<and> (300::nat) \<le> 300
   \<and> fetches (sb (run (typing ''alp'' [(100, ''alpha'')] @ [Elapse 300]) new_world)) =
       [\<lparr>rq_q = ''alpha'', rq_theme = None, rq_semantic = False, rq_limit = 25\<rparr>]
   \<and> map snd (timers (run (typing ''alp'' [(100, ''alpha'')]) new_world)) = [400]
   \<and> timers (run (typing ''alp'' [(100, ''alpha'')] @ [Elapse 300]) new_world) = []
   \<and> onSearch_calls (sb (run (typing ''alp'' [(100, ''alpha'')] @ [Elapse 300]) new_world)) = []"
proof -
  have n: "now (run (typing ''alp'' [(100, ''alpha'')]) new_world) = 100"
    by (simp add: sidebar_defs)
  from debounce_fires_latest_query [of new_world "[(100, ''alpha'')]" 300 "''alp''"] n
  show ?thesis
    by (simp add: new_world_def new_sidebar_def build_request_def truthy_def fetches_def
          onSearch_calls_def)
qed

section \<open>Overlapping searches\<close>

lemma ex_overlap_in_flight:
  "map rq_q (in_flight (run (take 4 ex_overlap) new_world)) = [''alp'', ''alpha'']"
  by (simp add: sidebar_defs ex_overlap_def)

text \<open>
  C1, as stated, fails: the search for ``alp'' is sent before the search for ``alpha''; the
  response to ``alpha'' arrives and is shown; the response to ``alp'' arrives after it and
  replaces the result set.
\<close>

theorem stale_response_overwrites:
  "map rq_q (in_flight (run (take 4 ex_overlap) new_world)) = [''alp'', ''alpha'']
   \<and> map r_id (searchResults (sb (run (take 5 ex_overlap) new_world))) = [''alpha-centauri'']
   \<and> map r_id (searchResults (sb (run ex_overlap new_world))) = [''alps'', ''alpha-centauri'']"
  by (simp add: sidebar_defs ex_overlap_def ex_data_def ex_result_def)

text \<open>
  C1 (amended): a search request consists of the query, the theme, the mode and the limit,
  with no generation number. Every response that arrives for a request in flight is
  applied, whichever request it answers: its results become the result set and are reported
  to the search callback, and they are rendered unless the callback throws, in which case
  the results panel stays as it was (the last response to arrive wins).
\<close>

theorem response_always_applied:
  "(i < length (in_flight w) \<longrightarrow>
      searchResults (sb (respond i (Search_data dat) w)) = d_results dat
      \<and> onSearch_calls (sb (respond i (Search_data dat) w)) =
          onSearch_calls (sb w) @
            (if onSearch (sb w) = None then [] else [Some (map r_id (d_results dat))])
      \<and> (results_list (sb (respond i (Search_data dat) w)),
          results_display (sb (respond i (Search_data dat) w))) =
          (if snd (call_onSearch (Some (map r_id (d_results dat))) (sb w)) = None
           then (map (result_to_card (themes (sb w))) (d_results dat), ''block'')
           else (results_list (sb w), results_display (sb w))))
   \<and> searchResults (performSearch_resume (Search_data dat) s) = d_results dat"
  by (auto simp: respond_def performSearch_resume_def renderSearchResults_def call_onSearch_def
        log_call_def onSearch_calls_def split: option.splits)

text \<open>
  C1, witness: with the searches for ``alp'' and ``alpha'' in flight, a response to the
  earlier one becomes the result set and is rendered.
\<close>

theorem response_always_applied_witness:
  "0 < length (in_flight (run (take 4 ex_overlap) new_world))
   \<and> searchResults (sb (respond 0 (Search_data (ex_data [''alps'']))
                          (run (take 4 ex_overlap) new_world))) = [ex_result ''alps'']
   \<and> map card_title (results_list (sb (respond 0 (Search_data (ex_data [''alps'']))
                          (run (take 4 ex_overlap) new_world)))) = [''alps'']"
proof -
  have len: "0 < length (in_flight (run (take 4 ex_overlap) new_world))"
    using ex_overlap_in_flight by (cases "in_flight (run (take 4 ex_overlap) new_world)") auto
  have cb: "snd (call_onSearch (Some (map r_id (d_results (ex_data [''alps'']))))
                  (sb (run (take 4 ex_overlap) new_world))) = None"
    by (simp add: sidebar_defs ex_overlap_def)
  from response_always_applied
         [of 0 "run (take 4 ex_overlap) new_world" "ex_data [''alps'']"] len cb
  show ?thesis by (simp add: ex_data_def ex_result_def result_to_card_def)
qed

end
